theory Spec2Isabelle
  imports Complex_Main
begin

section \<open>Number model\<close>

text \<open>
  The program computes on JavaScript numbers, which are binary64 floating-point values, and
  keeps the particle coordinates in \<open>Float32Array\<close> buffers, which hold binary32 values. A
  number is modelled by the real it denotes. An arithmetic operation of the program is the
  exact operation followed by \<open>fl64\<close>, rounding to the nearest binary64 value with ties to
  the even significand; a store into a \<open>Float32Array\<close> is \<open>fround\<close>, the same rounding to
  binary32. A decimal literal of the source denotes the binary64 value nearest to it: a
  literal that is not itself such a value is written under \<open>fl64\<close>.

  \<open>fl p emin\<close> rounds to \<open>p\<close> significant bits with least exponent \<open>emin\<close>: the spacing of
  the representable values around \<open>x\<close> is \<open>2\<close> to the power \<open>max (binade x) emin - (p - 1)\<close>,
  which makes the range below \<open>2\<close> to the \<open>emin\<close> the subnormal one, and \<open>x\<close> goes to the
  nearest multiple of the spacing. NaN and the infinities are not modelled: a result of
  magnitude \<open>2 ^ 1024\<close> (binary32: \<open>2 ^ 128\<close>) or more, which the program turns into
  \<open>Infinity\<close>, is rounded like any other, and the theorems that state what the program
  computes there carry bounds on their inputs that keep all values below. The target scale,
  rotation speed and hue of the metrics effect, each a value of one short expression on
  which no comparison or store depends, are written over the reals, as the specification
  states them, and so is the smoothing of the colour and of the object scale, which the
  rendering library does.

  Counters that the program only increments from zero are integers.
  \<open>Math.random ()\<close> is modelled by a sequence of draws \<open>rnd\<close>, the \<open>k\<close>-th call
  returning \<open>rnd k\<close>; the library guarantees \<open>0 \<le> rnd k < 1\<close>, which the theorems take
  as their hypothesis \<open>unit_draws rnd\<close>.
\<close>

datatype error = TypeError | RangeError

definition unit_draws :: "(nat \<Rightarrow> real) \<Rightarrow> bool" where
  "unit_draws rnd = (\<forall>k. 0 \<le> rnd k \<and> rnd k < 1)"

text \<open>Rounding a real to the nearest integer, a tie to the even one.\<close>

definition round_even :: "real \<Rightarrow> int" where
  "round_even y =
     (let n = \<lfloor>y\<rfloor>; d = y - of_int n
      in if d < 1 / 2 then n else if 1 / 2 < d then n + 1 else if even n then n else n + 1)"

text \<open>The exponent \<open>e\<close> with \<open>2 ^ e \<le> \<bar>x\<bar> < 2 ^ (e + 1)\<close>.\<close>

definition binade :: "real \<Rightarrow> int" where
  "binade x = \<lfloor>log 2 \<bar>x\<bar>\<rfloor>"

definition fl :: "nat \<Rightarrow> int \<Rightarrow> real \<Rightarrow> real" where
  "fl p emin x =
     (if x = 0 then 0
      else let u = 2 powi (max (binade x) emin - (int p - 1))
           in of_int (round_even (x / u)) * u)"

definition fl64 :: "real \<Rightarrow> real" where
  "fl64 = fl 53 (- 1022)"

definition fround :: "real \<Rightarrow> real" where
  "fround = fl 24 (- 126)"

section \<open>types.ts\<close>

record point =
  px :: real
  py :: real
  pz :: real

record HandMetrics =
  fingerCount :: int
  isFist :: bool
  position :: point
  palmDepth :: real

datatype ShapeType = HEART | FLOWER | PORTAL | HEXAGRAM | TREE

section \<open>services/gestureService.ts\<close>

definition WRIST :: nat where "WRIST = 0"
definition THUMB_IP :: nat where "THUMB_IP = 3"
definition THUMB_TIP :: nat where "THUMB_TIP = 4"
definition INDEX_FINGER_PIP :: nat where "INDEX_FINGER_PIP = 6"
definition INDEX_FINGER_TIP :: nat where "INDEX_FINGER_TIP = 8"
definition MIDDLE_FINGER_MCP :: nat where "MIDDLE_FINGER_MCP = 9"
definition MIDDLE_FINGER_PIP :: nat where "MIDDLE_FINGER_PIP = 10"
definition MIDDLE_FINGER_TIP :: nat where "MIDDLE_FINGER_TIP = 12"
definition RING_FINGER_PIP :: nat where "RING_FINGER_PIP = 14"
definition RING_FINGER_TIP :: nat where "RING_FINGER_TIP = 16"
definition PINKY_MCP :: nat where "PINKY_MCP = 17"
definition PINKY_PIP :: nat where "PINKY_PIP = 18"
definition PINKY_TIP :: nat where "PINKY_TIP = 20"

text \<open>
  \<open>distance\<close>: \<open>Math.sqrt (Math.pow (p1.x - p2.x, 2) + ...)\<close>, each difference, square and
  sum and the square root rounded to binary64. \<open>Math.pow (d, 2)\<close> is the rounded product
  of \<open>d\<close> with itself, which is what the engines return for the exponent 2, and
  \<open>Math.sqrt\<close> is the correctly rounded square root.
\<close>

definition distance :: "point \<Rightarrow> point \<Rightarrow> real" where
  "distance p1 p2 =
     fl64 (sqrt (fl64 (fl64 (fl64 ((fl64 (px p1 - px p2)) ^ 2)
                              + fl64 ((fl64 (py p1 - py p2)) ^ 2))
                        + fl64 ((fl64 (pz p1 - pz p2)) ^ 2))))"

text \<open>The five local constants of \<open>analyzeHand\<close>, each a comparison of two distances.\<close>

definition isThumbExtended :: "point list \<Rightarrow> bool" where
  "isThumbExtended landmarks =
     (distance (landmarks ! THUMB_TIP) (landmarks ! PINKY_MCP)
        > distance (landmarks ! THUMB_IP) (landmarks ! PINKY_MCP))"

definition isIndexExtended :: "point list \<Rightarrow> bool" where
  "isIndexExtended landmarks =
     (let wrist = landmarks ! WRIST in
      distance (landmarks ! INDEX_FINGER_TIP) wrist
        > distance (landmarks ! INDEX_FINGER_PIP) wrist)"

definition isMiddleExtended :: "point list \<Rightarrow> bool" where
  "isMiddleExtended landmarks =
     (let wrist = landmarks ! WRIST in
      distance (landmarks ! MIDDLE_FINGER_TIP) wrist
        > distance (landmarks ! MIDDLE_FINGER_PIP) wrist)"

definition isRingExtended :: "point list \<Rightarrow> bool" where
  "isRingExtended landmarks =
     (let wrist = landmarks ! WRIST in
      distance (landmarks ! RING_FINGER_TIP) wrist
        > distance (landmarks ! RING_FINGER_PIP) wrist)"

definition isPinkyExtended :: "point list \<Rightarrow> bool" where
  "isPinkyExtended landmarks =
     (let wrist = landmarks ! WRIST in
      distance (landmarks ! PINKY_TIP) wrist
        > distance (landmarks ! PINKY_PIP) wrist)"

text \<open>
  \<open>analyzeHand\<close>. The function reads the landmarks at indices up to 20 and takes their
  coordinates; on an array with fewer than 21 entries one of these reads yields
  \<open>undefined\<close>, and taking its \<open>x\<close> throws a TypeError. The counter \<open>fingerCount\<close>
  starts at 0 and is incremented once for each of the five flags, in the source's order.
\<close>

definition analyzeHand :: "point list \<Rightarrow> error + HandMetrics" where
  "analyzeHand landmarks =
     (if length landmarks < 21 then Inl TypeError
      else
        let c0 = (0::int);
            c1 = (if isThumbExtended landmarks then c0 + 1 else c0);
            c2 = (if isIndexExtended landmarks then c1 + 1 else c1);
            c3 = (if isMiddleExtended landmarks then c2 + 1 else c2);
            c4 = (if isRingExtended landmarks then c3 + 1 else c3);
            c5 = (if isPinkyExtended landmarks then c4 + 1 else c4);
            fist = (c5 = 0 \<or> (c5 = 1 \<and> \<not> isIndexExtended landmarks
                      \<and> \<not> isMiddleExtended landmarks \<and> \<not> isRingExtended landmarks
                      \<and> \<not> isPinkyExtended landmarks));
            pos = \<lparr> px = px (landmarks ! 9), py = py (landmarks ! 9),
                    pz = pz (landmarks ! 9) \<rparr>;
            palmSize = distance (landmarks ! WRIST) (landmarks ! MIDDLE_FINGER_MCP)
        in Inr \<lparr> fingerCount = c5, isFist = fist, position = pos, palmDepth = palmSize \<rparr>)"

subsection \<open>The specification's reading of the extension test\<close>









text \<open>Test inputs: a hand with all 21 landmarks at the origin, and the same hand with the
  thumb tip moved away.\<close>

definition origin :: point where
  "origin = \<lparr> px = 0, py = 0, pz = 0 \<rparr>"

definition closed_hand :: "point list" where
  "closed_hand = replicate 21 origin"

definition thumb_out_hand :: "point list" where
  "thumb_out_hand = closed_hand [4 := \<lparr> px = 1, py = 0, pz = 0 \<rparr>]"

definition index_out_hand :: "point list" where
  "index_out_hand = closed_hand [8 := \<lparr> px = 0, py = 1, pz = 0 \<rparr>]"


section \<open>components/HandParticleScene.tsx\<close>

definition PARTICLE_COUNT :: nat where "PARTICLE_COUNT = 4000"
definition POS_LERP_FACTOR :: real where "POS_LERP_FACTOR = 0.08"
definition COLOR_LERP_FACTOR :: real where "COLOR_LERP_FACTOR = 0.05"

text \<open>
  The functions below take the particle count as their argument \<open>n\<close>, and the particle loop
  takes its smoothing factor as \<open>f\<close>; the program runs them at \<open>PARTICLE_COUNT\<close> and
  \<open>POS_LERP_FACTOR\<close>. This lets the statements about a particle count of zero and about
  other smoothing factors be made on the same definitions.
\<close>

subsection \<open>Library values\<close>

text \<open>
  A \<open>Float32Array\<close> is a list of numbers; \<open>new Float32Array (k)\<close> holds \<open>k\<close> zeros. A
  write \<open>arr[j] = v\<close> beyond the end is ignored, as \<open>arr[j := v]\<close> is. A read beyond the
  end yields \<open>undefined\<close>, which the number model has no value for: the program allocates
  every buffer with three entries per particle and indexes below that, and the theorems
  about reads carry these lengths as hypotheses.
  \<open>target.set (source)\<close> copies \<open>source\<close> over the start of \<open>target\<close> and throws a
  RangeError when \<open>source\<close> is the longer one.
\<close>

definition f32_new :: "nat \<Rightarrow> real list" where
  "f32_new k = replicate k 0"

definition f32_set :: "real list \<Rightarrow> real list \<Rightarrow> error + real list" where
  "f32_set target source =
     (if length source > length target then Inl RangeError
      else Inr (source @ drop (length source) target))"

text \<open>
  Modelled from the spec: \<open>THREE.Color.lerp\<close> and \<open>THREE.Vector3.lerp\<close> belong to the
  rendering library, which is not among the sources. The specification describes both as
  exponential smoothing, closing per call the fraction \<open>alpha\<close> of the remaining gap: a
  \<open>THREE.Color\<close> holds three channels, and \<open>c.lerp (d, alpha)\<close> adds to each channel of
  \<open>c\<close> the fraction \<open>alpha\<close> of its difference to \<open>d\<close>; \<open>THREE.Vector3.lerp\<close> does the
  same on the three components of a vector. \<open>Color.setHSL\<close> and the colour built from a
  hexadecimal literal also belong to the library; they are parameters of the model.
\<close>

record color =
  cr :: real
  cg :: real
  cb :: real

definition color_lerp :: "color \<Rightarrow> color \<Rightarrow> real \<Rightarrow> color" where
  "color_lerp c d alpha =
     \<lparr> cr = cr c + (cr d - cr c) * alpha,
       cg = cg c + (cg d - cg c) * alpha,
       cb = cb c + (cb d - cb c) * alpha \<rparr>"

definition vector3_lerp :: "point \<Rightarrow> point \<Rightarrow> real \<Rightarrow> point" where
  "vector3_lerp v w alpha =
     \<lparr> px = px v + (px w - px v) * alpha,
       py = py v + (py w - py v) * alpha,
       pz = pz v + (pz w - pz v) * alpha \<rparr>"

subsection \<open>Animation state\<close>

text \<open>The refs of the component and the fields of the \<open>THREE.Points\<close> object that the
  two effects write.\<close>

record AnimationState =
  positions :: "real list"
  targetPositions :: "real list"
  currentShape :: ShapeType
  rotationSpeed :: real
  groupScale :: real
  currentColor :: color
  targetColor :: color
  materialColor :: color
  rotation_y :: real
  rotation_z :: real
  scale :: point

subsection \<open>Shape generators\<close>

text \<open>
  \<open>Math.sin\<close>, \<open>Math.cos\<close> and \<open>Math.pow\<close> with the exponent 3 return an approximation
  that the language leaves to the engine: the three functions are a parameter \<open>ml\<close> of the
  shape functions, and nothing is assumed of them. \<open>Math.PI\<close> is the binary64 value nearest to the circle
  constant.
\<close>

record mathlib =
  m_sin :: "real \<Rightarrow> real"
  m_cos :: "real \<Rightarrow> real"
  m_pow :: "real \<Rightarrow> real \<Rightarrow> real"

definition Math_PI :: real where "Math_PI = 884279719003555 / 2 ^ 48"

text \<open>
  \<open>generate\<close> allocates the buffer and runs \<open>fn\<close> on \<open>0, ..., n - 1\<close>, storing the three
  coordinates of each point, which rounds them to binary32. A shape function takes the
  particle index and the number \<open>k\<close> of draws made so far, and returns the point with the
  new number of draws.
\<close>

function generate_from ::
  "(nat \<Rightarrow> nat \<Rightarrow> point \<times> nat) \<Rightarrow> nat \<Rightarrow> nat \<Rightarrow> nat \<Rightarrow> real list \<Rightarrow> real list \<times> nat" where
  "generate_from fn n i k arr =
     (if i < n then
        (case fn i k of (p, k') \<Rightarrow>
           generate_from fn n (Suc i) k'
             (arr [i * 3 := fround (px p), i * 3 + 1 := fround (py p),
                   i * 3 + 2 := fround (pz p)]))
      else (arr, k))"
  by pat_completeness auto
termination
  by (relation "measure (\<lambda>(fn, n, i, k, arr). n - i)") auto

definition generate ::
  "nat \<Rightarrow> (nat \<Rightarrow> nat \<Rightarrow> point \<times> nat) \<Rightarrow> nat \<Rightarrow> real list \<times> nat" where
  "generate n fn k = generate_from fn n 0 k (f32_new (n * 3))"

definition heart :: "mathlib \<Rightarrow> (nat \<Rightarrow> real) \<Rightarrow> nat \<Rightarrow> nat \<Rightarrow> nat \<Rightarrow> point \<times> nat" where
  "heart ml rnd n i k =
     (let t = fl64 (fl64 (fl64 (real i / real n) * Math_PI) * 2);
          r = fl64 (0.5 + fl64 (rnd k * fl64 0.1));
          x = fl64 (16 * m_pow ml (m_sin ml t) 3);
          y = fl64 (fl64 (fl64 (fl64 (13 * m_cos ml t) - fl64 (5 * m_cos ml (fl64 (2 * t))))
                           - fl64 (2 * m_cos ml (fl64 (3 * t))))
                     - m_cos ml (fl64 (4 * t)));
          z = fl64 (fl64 (rnd (k + 1) - 0.5) * 4)
      in (\<lparr> px = fl64 (x * r), py = fl64 (y * r), pz = z \<rparr>, k + 2))"

definition flower :: "mathlib \<Rightarrow> (nat \<Rightarrow> real) \<Rightarrow> nat \<Rightarrow> nat \<Rightarrow> nat \<Rightarrow> point \<times> nat" where
  "flower ml rnd n i k =
     (let kp = (5::real);
          t = fl64 (fl64 (fl64 (fl64 (real i / real n) * Math_PI) * 2) * 12);
          rad = fl64 (fl64 (8 * m_cos ml (fl64 (kp * t))) + 3)
      in (\<lparr> px = fl64 (rad * m_cos ml t), py = fl64 (rad * m_sin ml t),
             pz = fl64 (fl64 (rnd k - 0.5) * 3) \<rparr>, k + 1))"

definition portal :: "mathlib \<Rightarrow> (nat \<Rightarrow> real) \<Rightarrow> nat \<Rightarrow> nat \<Rightarrow> nat \<Rightarrow> point \<times> nat" where
  "portal ml rnd n i k =
     (let layer = i mod 3;
          rad0 = (0::real);
          angle = fl64 (fl64 (rnd k * Math_PI) * 2);
          k0 = k + 1;
          (rad1, k1) = (if layer = 0 then (fl64 (10 + fl64 (rnd k0 * 1.5)), k0 + 1)
                        else (rad0, k0));
          (rad2, k2) = (if layer = 1 then (fl64 (8 + fl64 (rnd k1 * 1.0)), k1 + 1)
                        else (rad1, k1));
          (rad, k3) = (if layer = 2 then (fl64 (rnd k2 * 9), k2 + 1) else (rad2, k2));
          noise = fl64 (fl64 (rnd k3 - 0.5) * 0.5)
      in (\<lparr> px = fl64 (fl64 (rad + noise) * m_cos ml angle),
             py = fl64 (fl64 (rad + noise) * m_sin ml angle),
             pz = fl64 (fl64 (rnd (k3 + 1) - 0.5) * 0.5) \<rparr>, k3 + 2))"

definition hexagram :: "mathlib \<Rightarrow> (nat \<Rightarrow> real) \<Rightarrow> nat \<Rightarrow> nat \<Rightarrow> nat \<Rightarrow> point \<times> nat" where
  "hexagram ml rnd n i k =
     (let angle = fl64 (fl64 (fl64 (real i / real n) * Math_PI) * 2);
          rad = fl64 (9 * fl64 (fl64 1.2 + fl64 (fl64 0.3 * m_sin ml (fl64 (6 * angle)))))
      in (\<lparr> px = fl64 (rad * m_cos ml angle), py = fl64 (rad * m_sin ml angle),
             pz = fl64 (fl64 (rnd k - 0.5) * 2) \<rparr>, k + 1))"

definition tree :: "mathlib \<Rightarrow> (nat \<Rightarrow> real) \<Rightarrow> nat \<Rightarrow> nat \<Rightarrow> nat \<Rightarrow> point \<times> nat" where
  "tree ml rnd n i k =
     (let pct = fl64 (real i / real n);
          height = (18::real);
          y = fl64 (8 - fl64 (pct * height));
          radius = fl64 (pct * 8);
          angle = fl64 (fl64 (pct * Math_PI) * 20)
      in (\<lparr> px = fl64 (radius * m_cos ml angle), py = y,
             pz = fl64 (radius * m_sin ml angle) \<rparr>, k))"

text \<open>The memoised table \<open>shapes\<close>: the five buffers are generated once, in the order of
  the object literal, each continuing the draws of the one before.\<close>

definition shapes :: "mathlib \<Rightarrow> (nat \<Rightarrow> real) \<Rightarrow> nat \<Rightarrow> ShapeType \<Rightarrow> real list" where
  "shapes ml rnd n =
     (case generate n (heart ml rnd n) 0 of (a_heart, k1) \<Rightarrow>
      case generate n (flower ml rnd n) k1 of (a_flower, k2) \<Rightarrow>
      case generate n (portal ml rnd n) k2 of (a_portal, k3) \<Rightarrow>
      case generate n (hexagram ml rnd n) k3 of (a_hexagram, k4) \<Rightarrow>
      case generate n (tree ml rnd n) k4 of (a_tree, k5) \<Rightarrow>
        (\<lambda>s. case s of HEART \<Rightarrow> a_heart | FLOWER \<Rightarrow> a_flower | PORTAL \<Rightarrow> a_portal
                 | HEXAGRAM \<Rightarrow> a_hexagram | TREE \<Rightarrow> a_tree))"

subsection \<open>Mounting\<close>

text \<open>
  The first effect, up to the point where the animation loop starts: the geometry's
  position buffer and the target buffer are both filled from the heart. \<open>c0\<close> is the colour
  the library builds from \<open>0xff0055\<close>; the refs start at rotation speed 0.001 and group
  scale 1, and a new \<open>THREE.Points\<close> has rotation 0 and scale 1.
\<close>

definition mount :: "color \<Rightarrow> (ShapeType \<Rightarrow> real list) \<Rightarrow> nat \<Rightarrow> error + AnimationState" where
  "mount c0 shp n =
     (case f32_set (f32_new (n * 3)) (shp HEART) of
        Inl e \<Rightarrow> Inl e
      | Inr pos \<Rightarrow>
          (case f32_set (f32_new (n * 3)) (shp HEART) of
             Inl e \<Rightarrow> Inl e
           | Inr tgt \<Rightarrow>
               Inr \<lparr> positions = pos, targetPositions = tgt, currentShape = HEART,
                     rotationSpeed = 0.001, groupScale = 1.0,
                     currentColor = c0, targetColor = c0, materialColor = c0,
                     rotation_y = 0, rotation_z = 0,
                     scale = \<lparr> px = 1, py = 1, pz = 1 \<rparr> \<rparr>))"

subsection \<open>The animation loop\<close>

text \<open>
  One pass of the particle loop's body, for particle \<open>i\<close>, with smoothing factor \<open>f\<close>
  (\<open>POS_LERP_FACTOR\<close> in the program) and \<open>k\<close> draws made so far in this tick. Each
  \<open>+=\<close> reads the entry, computes in binary64, and stores the sum back into the
  \<open>Float32Array\<close>, which rounds it to binary32.
\<close>

definition particle_step ::
  "real \<Rightarrow> (nat \<Rightarrow> real) \<Rightarrow> real list \<Rightarrow> nat \<Rightarrow> nat \<Rightarrow> real list \<Rightarrow> real list \<times> nat" where
  "particle_step f rnd target i k p0 =
     (let ix = i * 3; iy = i * 3 + 1; iz = i * 3 + 2;
          p1 = p0 [ix := fround (fl64 (p0 ! ix + fl64 (fl64 (target ! ix - p0 ! ix) * f)))];
          p2 = p1 [iy := fround (fl64 (p1 ! iy + fl64 (fl64 (target ! iy - p1 ! iy) * f)))];
          p3 = p2 [iz := fround (fl64 (p2 ! iz + fl64 (fl64 (target ! iz - p2 ! iz) * f)))];
          p4 = p3 [ix := fround (fl64 (p3 ! ix + fl64 (fl64 (rnd k - 0.5) * fl64 0.05)))];
          p5 = p4 [iy := fround (fl64 (p4 ! iy + fl64 (fl64 (rnd (k + 1) - 0.5) * fl64 0.05)))];
          p6 = p5 [iz := fround (fl64 (p5 ! iz + fl64 (fl64 (rnd (k + 2) - 0.5) * fl64 0.05)))]
      in (p6, k + 3))"

function particle_loop ::
  "real \<Rightarrow> (nat \<Rightarrow> real) \<Rightarrow> real list \<Rightarrow> nat \<Rightarrow> nat \<Rightarrow> nat \<Rightarrow> real list \<Rightarrow> real list \<times> nat" where
  "particle_loop f rnd target n i k p =
     (if i < n then
        (case particle_step f rnd target i k p of (p', k') \<Rightarrow>
           particle_loop f rnd target n (Suc i) k' p')
      else (p, k))"
  by pat_completeness auto
termination
  by (relation "measure (\<lambda>(f, rnd, target, n, i, k, p). n - i)") auto

text \<open>
  \<open>animate\<close>, one tick for \<open>n\<close> particles; \<open>rnd\<close> holds the draws of this tick. The refs
  the function tests at its start are all set before the loop is started and never
  cleared, and the material is the \<open>PointsMaterial\<close> built at mounting. The two rotation
  angles are numbers of the program and their sums are rounded to binary64.
\<close>

definition animate :: "nat \<Rightarrow> (nat \<Rightarrow> real) \<Rightarrow> AnimationState \<Rightarrow> AnimationState" where
  "animate n rnd st =
     (let c = color_lerp (currentColor st) (targetColor st) COLOR_LERP_FACTOR;
          p = fst (particle_loop (fl64 POS_LERP_FACTOR) rnd (targetPositions st) n 0 0
                 (positions st));
          g = groupScale st
      in st \<lparr> currentColor := c, materialColor := c, positions := p,
              rotation_z := fl64 (rotation_z st + rotationSpeed st),
              rotation_y := fl64 (rotation_y st + fl64 (rotationSpeed st * 0.5)),
              scale := vector3_lerp (scale st) \<lparr> px = g, py = g, pz = g \<rparr> 0.1 \<rparr>)"



text \<open>The distance of coordinate \<open>j\<close> from its target after \<open>t\<close> position updates.\<close>

text \<open>
  The two stores that a tick makes to one coordinate, named for the statements below: the
  smoothing step towards the target \<open>t\<close>, the jitter computed from a draw \<open>r\<close>, and the
  store of the jittered coordinate.
\<close>

definition lerp_coord :: "real \<Rightarrow> real \<Rightarrow> real \<Rightarrow> real" where
  "lerp_coord f t p = fround (fl64 (p + fl64 (fl64 (t - p) * f)))"

definition jitter64 :: "real \<Rightarrow> real" where
  "jitter64 r = fl64 (fl64 (r - 0.5) * fl64 0.05)"

definition jitter_coord :: "real \<Rightarrow> real \<Rightarrow> real" where
  "jitter_coord r q = fround (fl64 (q + jitter64 r))"


subsection \<open>The metrics effect\<close>

text \<open>
  The second effect runs when \<open>handMetrics\<close> changes and returns at once on \<open>null\<close>.
  Its three numbered parts are three functions, composed in \<open>handleMetrics\<close>.
\<close>

definition shapeSelection ::
  "(ShapeType \<Rightarrow> real list) \<Rightarrow> HandMetrics \<Rightarrow> AnimationState \<Rightarrow> error + AnimationState" where
  "shapeSelection shp m st =
     (let newShape0 = currentShape st in
      if \<not> isFist m then
        (let newShape =
               (if fingerCount m = 1 then HEART
                else if fingerCount m = 2 then FLOWER
                else if fingerCount m = 3 then PORTAL
                else if fingerCount m = 4 then HEXAGRAM
                else if fingerCount m = 5 then TREE
                else newShape0)
         in if newShape \<noteq> currentShape st then
              (case f32_set (targetPositions st) (shp newShape) of
                 Inl e \<Rightarrow> Inl e
               | Inr tgt \<Rightarrow> Inr (st \<lparr> currentShape := newShape, targetPositions := tgt \<rparr>))
            else Inr st)
      else Inr st)"

definition colorMode ::
  "(real \<Rightarrow> real \<Rightarrow> real \<Rightarrow> color) \<Rightarrow> HandMetrics \<Rightarrow> AnimationState \<Rightarrow> AnimationState" where
  "colorMode setHSL m st =
     (if isFist m then
        (let hue = max 0 (min 1 (1 - px (position m)))
         in st \<lparr> targetColor := setHSL hue 1.0 0.5 \<rparr>)
      else st)"

definition physics :: "HandMetrics \<Rightarrow> AnimationState \<Rightarrow> AnimationState" where
  "physics m st =
     (if isFist m then st \<lparr> groupScale := 0.4, rotationSpeed := 0.15 \<rparr>
      else
        (let depthScale = max 0.05 (min 0.5 (palmDepth m))
         in st \<lparr> groupScale := 1.0 + (1 - depthScale * 2), rotationSpeed := 0.002 \<rparr>))"

definition handleMetrics ::
  "(real \<Rightarrow> real \<Rightarrow> real \<Rightarrow> color) \<Rightarrow> (ShapeType \<Rightarrow> real list) \<Rightarrow> HandMetrics option
     \<Rightarrow> AnimationState \<Rightarrow> error + AnimationState" where
  "handleMetrics setHSL shp hm st =
     (case hm of
        None \<Rightarrow> Inr st
      | Some m \<Rightarrow>
          (case shapeSelection shp m st of
             Inl e \<Rightarrow> Inl e
           | Inr st1 \<Rightarrow> Inr (physics m (colorMode setHSL m st1))))"

subsection \<open>The running scene\<close>

text \<open>
  The states the component can be in: the mounted state, and from there any interleaving
  of animation ticks and metrics updates, each run to its end before the next starts.
\<close>

inductive reachable ::
  "color \<Rightarrow> (real \<Rightarrow> real \<Rightarrow> real \<Rightarrow> color) \<Rightarrow> (ShapeType \<Rightarrow> real list) \<Rightarrow> nat
     \<Rightarrow> AnimationState \<Rightarrow> bool"
  for c0 setHSL shp n where
    mounted: "mount c0 shp n = Inr st \<Longrightarrow> reachable c0 setHSL shp n st"
  | tick: "reachable c0 setHSL shp n st \<Longrightarrow> reachable c0 setHSL shp n (animate n rnd st)"
  | update: "reachable c0 setHSL shp n st \<Longrightarrow> handleMetrics setHSL shp hm st = Inr st'
      \<Longrightarrow> reachable c0 setHSL shp n st'"

subsection \<open>The specification's vocabulary\<close>

text \<open>The shape list indexed by finger count, and clamping by comparison.\<close>

definition shape_table_spec :: "ShapeType list" where
  "shape_table_spec = [HEART, FLOWER, PORTAL, HEXAGRAM, TREE]"


text \<open>
  The documented shape formulas, for particle \<open>i\<close> of \<open>n\<close>, as functions of the random
  components they leave open, evaluated as the program evaluates a formula: every
  operation rounded to binary64, the trigonometric functions and the cube taken from the
  library, and the coordinate rounded to binary32 when it is stored. \<open>theta_spec\<close> is the
  sweep parameter \<open>(i / n) * 2 * pi\<close>. A \<open>z\<close> that the documentation only bounds is the
  stored value.
\<close>

definition theta_spec :: "nat \<Rightarrow> nat \<Rightarrow> real" where
  "theta_spec n i = fl64 (fl64 (fl64 (real i / real n) * Math_PI) * 2)"

definition heart_spec :: "mathlib \<Rightarrow> nat \<Rightarrow> nat \<Rightarrow> real \<Rightarrow> real \<Rightarrow> real \<times> real \<times> real" where
  "heart_spec ml n i r z =
     (let t = theta_spec n i;
          x = fl64 (16 * m_pow ml (m_sin ml t) 3);
          y = fl64 (fl64 (fl64 (fl64 (13 * m_cos ml t) - fl64 (5 * m_cos ml (fl64 (2 * t))))
                           - fl64 (2 * m_cos ml (fl64 (3 * t))))
                     - m_cos ml (fl64 (4 * t)))
      in (fround (fl64 (x * r)), fround (fl64 (y * r)), z))"

definition flower_spec :: "mathlib \<Rightarrow> nat \<Rightarrow> nat \<Rightarrow> real \<Rightarrow> real \<times> real \<times> real" where
  "flower_spec ml n i z =
     (let t' = fl64 (theta_spec n i * 12);
          radius = fl64 (fl64 (8 * m_cos ml (fl64 (5 * t'))) + 3)
      in (fround (fl64 (radius * m_cos ml t')), fround (fl64 (radius * m_sin ml t')), z))"

definition portal_radius_spec :: "nat \<Rightarrow> real \<Rightarrow> bool" where
  "portal_radius_spec i radius =
     (if i mod 3 = 0 then 10 \<le> radius \<and> radius \<le> 11.5
      else if i mod 3 = 1 then 8 \<le> radius \<and> radius \<le> 9
      else 0 \<le> radius \<and> radius \<le> 9)"

definition portal_spec ::
  "mathlib \<Rightarrow> real \<Rightarrow> real \<Rightarrow> real \<Rightarrow> real \<Rightarrow> real \<times> real \<times> real" where
  "portal_spec ml radius noise angle z =
     (fround (fl64 (fl64 (radius + noise) * m_cos ml angle)),
      fround (fl64 (fl64 (radius + noise) * m_sin ml angle)), z)"

definition hexagram_spec :: "mathlib \<Rightarrow> nat \<Rightarrow> nat \<Rightarrow> real \<Rightarrow> real \<times> real \<times> real" where
  "hexagram_spec ml n i z =
     (let angle = theta_spec n i;
          radius = fl64 (9 * fl64 (fl64 1.2 + fl64 (fl64 0.3 * m_sin ml (fl64 (6 * angle)))))
      in (fround (fl64 (radius * m_cos ml angle)), fround (fl64 (radius * m_sin ml angle)), z))"

definition tree_spec :: "mathlib \<Rightarrow> nat \<Rightarrow> nat \<Rightarrow> real \<times> real \<times> real" where
  "tree_spec ml n i =
     (let pct = fl64 (real i / real n); y = fl64 (8 - fl64 (pct * 18));
          radius = fl64 (pct * 8);
          angle = fl64 (fl64 (pct * Math_PI) * 20)
      in (fround (fl64 (radius * m_cos ml angle)), fround y,
          fround (fl64 (radius * m_sin ml angle))))"

text \<open>Particle \<open>i\<close> of a buffer: its three consecutive entries.\<close>

definition particle_at :: "real list \<Rightarrow> nat \<Rightarrow> real \<times> real \<times> real" where
  "particle_at buf i = (buf ! (i * 3), buf ! (i * 3 + 1), buf ! (i * 3 + 2))"

subsection \<open>Test inputs\<close>

text \<open>A library whose sine, cosine and power with a natural exponent are the exact
  values rounded to binary64.\<close>

definition test_mathlib :: mathlib where
  "test_mathlib = \<lparr> m_sin = (\<lambda>x. fl64 (sin x)), m_cos = (\<lambda>x. fl64 (cos x)),
                     m_pow = (\<lambda>b e. fl64 (b ^ nat \<lfloor>e\<rfloor>)) \<rparr>"

text \<open>A scene of one particle: a table of five three-entry buffers, a stand-in for
  \<open>setHSL\<close> that keeps its three arguments, the state after mounting, and metrics of an
  open hand and of a fist.\<close>

definition test_shapes :: "ShapeType \<Rightarrow> real list" where
  "test_shapes s = (case s of HEART \<Rightarrow> [1, 2, 3] | FLOWER \<Rightarrow> [4, 5, 6]
     | PORTAL \<Rightarrow> [7, 8, 9] | HEXAGRAM \<Rightarrow> [10, 11, 12] | TREE \<Rightarrow> [13, 14, 15])"

definition test_setHSL :: "real \<Rightarrow> real \<Rightarrow> real \<Rightarrow> color" where
  "test_setHSL h s l = \<lparr> cr = h, cg = s, cb = l \<rparr>"

definition test_color :: color where
  "test_color = \<lparr> cr = 1, cg = 0, cb = 1 / 3 \<rparr>"

definition test_state :: AnimationState where
  "test_state =
     \<lparr> positions = [1, 2, 3], targetPositions = [1, 2, 3], currentShape = HEART,
       rotationSpeed = 0.001, groupScale = 1.0,
       currentColor = test_color, targetColor = test_color, materialColor = test_color,
       rotation_y = 0, rotation_z = 0, scale = \<lparr> px = 1, py = 1, pz = 1 \<rparr> \<rparr>"

text \<open>A one-particle scene in the middle of a transition: positions away from their
  targets, a colour and a scale away from theirs, spinning fast.\<close>

definition moving_state :: AnimationState where
  "moving_state =
     \<lparr> positions = [1, 2, 3], targetPositions = [4, 5, 6], currentShape = FLOWER,
       rotationSpeed = 0.15, groupScale = 0.4,
       currentColor = \<lparr> cr = 1, cg = 0, cb = 0 \<rparr>, targetColor = \<lparr> cr = 0, cg = 1, cb = 0.5 \<rparr>,
       materialColor = \<lparr> cr = 1, cg = 0, cb = 0 \<rparr>,
       rotation_y = 0, rotation_z = 0, scale = \<lparr> px = 1, py = 1, pz = 1 \<rparr> \<rparr>"

definition open_metrics :: "int \<Rightarrow> real \<Rightarrow> HandMetrics" where
  "open_metrics k d =
     \<lparr> fingerCount = k, isFist = False,
       position = \<lparr> px = 0.5, py = 0.5, pz = 0 \<rparr>, palmDepth = d \<rparr>"

definition fist_metrics :: "real \<Rightarrow> HandMetrics" where
  "fist_metrics a =
     \<lparr> fingerCount = 0, isFist = True,
       position = \<lparr> px = a, py = 0.5, pz = 0 \<rparr>, palmDepth = 0.2 \<rparr>"

section \<open>Rounding: proofs\<close>

lemma round_even_cases:
  "round_even y = \<lfloor>y\<rfloor> \<or> round_even y = \<lfloor>y\<rfloor> + 1"
  by (simp add: round_even_def Let_def)

lemma round_even_of_int: "round_even (of_int n) = n"
  by (simp add: round_even_def Let_def)

lemma round_even_error: "\<bar>of_int (round_even y) - y\<bar> \<le> 1 / 2"
proof -
  have "of_int \<lfloor>y\<rfloor> \<le> y" "y < of_int \<lfloor>y\<rfloor> + 1" by linarith+
  then show ?thesis
    by (auto simp add: round_even_def Let_def abs_le_iff)
qed

lemma round_even_near:
  assumes "\<bar>y - of_int n\<bar> < 1 / 2"
  shows "round_even y = n"
proof -
  have "\<bar>of_int (round_even y) - y\<bar> \<le> 1 / 2" by (rule round_even_error)
  with assms have "\<bar>(of_int (round_even y) :: real) - of_int n\<bar> < 1" by linarith
  then have "\<bar>round_even y - n\<bar> < 1"
    by (metis of_int_abs of_int_diff of_int_less_1_iff)
  then show ?thesis by simp
qed

lemma round_even_tie_even:
  assumes "y = of_int n + 1 / 2" and "even n"
  shows "round_even y = n"
proof -
  from assms(1) have "\<lfloor>y\<rfloor> = n" by (simp add: floor_eq_iff)
  with assms show ?thesis by (simp add: round_even_def Let_def)
qed

lemma round_even_tie_odd:
  assumes "y = of_int n + 1 / 2" and "odd n"
  shows "round_even y = n + 1"
proof -
  from assms(1) have "\<lfloor>y\<rfloor> = n" by (simp add: floor_eq_iff)
  with assms show ?thesis by (simp add: round_even_def Let_def)
qed

lemma round_even_mono:
  assumes "y \<le> z"
  shows "round_even y \<le> round_even z"
proof (cases "\<lfloor>y\<rfloor> = \<lfloor>z\<rfloor>")
  case True
  with assms have "y - of_int \<lfloor>y\<rfloor> \<le> z - of_int \<lfloor>z\<rfloor>" by simp
  with True show ?thesis
    by (auto simp add: round_even_def Let_def)
next
  case False
  with assms have "\<lfloor>y\<rfloor> < \<lfloor>z\<rfloor>"
    using floor_mono [OF assms] by linarith
  moreover have "round_even y \<le> \<lfloor>y\<rfloor> + 1" using round_even_cases [of y] by auto
  moreover have "\<lfloor>z\<rfloor> \<le> round_even z" using round_even_cases [of z] by auto
  ultimately show ?thesis by linarith
qed

lemma round_even_minus: "round_even (- y) = - round_even y"
proof (cases "y = of_int \<lfloor>y\<rfloor>")
  case True
  then obtain n where "y = of_int n" ..
  then have "- y = of_int (- n)" by simp
  with \<open>y = of_int n\<close> show ?thesis by (simp only: round_even_of_int)
next
  case False
  have "of_int \<lfloor>y\<rfloor> \<le> y" "y < of_int \<lfloor>y\<rfloor> + 1" by linarith+
  with False have s: "of_int \<lfloor>y\<rfloor> < y" by (metis le_less)
  have f: "\<lfloor>- y\<rfloor> = - \<lfloor>y\<rfloor> - 1"
    unfolding floor_eq_iff using s \<open>y < of_int \<lfloor>y\<rfloor> + 1\<close> by simp linarith
  show ?thesis
    unfolding round_even_def Let_def f using s by auto
qed

lemma powr_powi:
  "2 powr (real_of_int k) = 2 powi k" "2 powr (real_of_int k + 1) = 2 powi (k + 1)"
proof -
  show "2 powr (real_of_int k) = 2 powi k" for k by (simp add: powr_real_of_int')
  from this [of "k + 1"] show "2 powr (real_of_int k + 1) = 2 powi (k + 1)" by simp
qed

lemma pow2_less_imp:
  assumes "(2::real) powi a < 2 powi b"
  shows "a < b"
proof (rule ccontr)
  assume "\<not> a < b"
  then have "b \<le> a" by simp
  then have "(2::real) powi b \<le> 2 powi a" by (intro power_int_increasing) simp_all
  with assms show False by simp
qed

lemma binade_bounds:
  assumes "x \<noteq> 0"
  shows "2 powi (binade x) \<le> \<bar>x\<bar>" and "\<bar>x\<bar> < 2 powi (binade x + 1)"
proof -
  from assms have pos: "0 < \<bar>x\<bar>" by simp
  have "\<lfloor>log 2 \<bar>x\<bar>\<rfloor> = binade x" by (simp add: binade_def)
  with floor_log_eq_powr_iff [OF pos, of 2 "binade x"]
  have "2 powr (real_of_int (binade x)) \<le> \<bar>x\<bar> \<and> \<bar>x\<bar> < 2 powr (real_of_int (binade x + 1))"
    by simp
  then show "2 powi (binade x) \<le> \<bar>x\<bar>" and "\<bar>x\<bar> < 2 powi (binade x + 1)"
    by (simp_all add: powr_powi)
qed

lemma binade_eqI:
  assumes "2 powi e \<le> \<bar>x\<bar>" and "\<bar>x\<bar> < 2 powi (e + 1)"
  shows "binade x = e"
proof -
  have "(0::real) < 2 powi e" by simp
  with assms(1) have pos: "0 < \<bar>x\<bar>" by linarith
  from assms have "2 powr (real_of_int e) \<le> \<bar>x\<bar> \<and> \<bar>x\<bar> < 2 powr (real_of_int (e + 1))"
    by (simp add: powr_powi)
  with floor_log_eq_powr_iff [OF pos, of 2 e] show ?thesis
    by (simp add: binade_def)
qed

lemma binade_minus: "binade (- x) = binade x"
  by (simp add: binade_def)

lemma binade_mono:
  assumes "0 < x" and "x \<le> y"
  shows "binade x \<le> binade y"
proof (rule ccontr)
  assume "\<not> binade x \<le> binade y"
  then have "binade y + 1 \<le> binade x" by simp
  then have "(2::real) powi (binade y + 1) \<le> 2 powi (binade x)"
    by (intro power_int_increasing) simp_all
  moreover from assms have "x \<noteq> 0" "y \<noteq> 0" by simp_all
  from binade_bounds(1) [OF this(1)] binade_bounds(2) [OF this(2)] assms
  have "2 powi (binade x) \<le> x" "y < 2 powi (binade y + 1)" by simp_all
  ultimately show False using assms by linarith
qed


lemma fl_zero: "fl p emin 0 = 0"
  by (simp add: fl_def)

lemma fl_minus: "fl p emin (- x) = - fl p emin x"
  by (simp add: fl_def Let_def binade_minus round_even_minus)

lemma fl_unfold:
  assumes "2 powi e \<le> \<bar>x\<bar>" and "\<bar>x\<bar> < 2 powi (e + 1)"
  shows "fl p emin x =
    of_int (round_even (x / 2 powi (max e emin - (int p - 1)))) * 2 powi (max e emin - (int p - 1))"
proof -
  have "(0::real) < 2 powi e" by simp
  with assms(1) have "0 < \<bar>x\<bar>" by linarith
  then have "x \<noteq> 0" by simp
  moreover have "binade x = e" using assms by (rule binade_eqI)
  ultimately show ?thesis by (simp add: fl_def Let_def)
qed

lemma fl_evalI:
  assumes "2 powi e \<le> \<bar>x\<bar>" and "\<bar>x\<bar> < 2 powi (e + 1)"
    and "k = max e emin - (int p - 1)"
    and "\<bar>x / 2 powi k - of_int n\<bar> < 1 / 2"
  shows "fl p emin x = of_int n * 2 powi k"
  unfolding fl_unfold [OF assms(1,2)] assms(3) [symmetric]
  using round_even_near [OF assms(4)] by simp

lemma fl_evalI_tie:
  assumes "2 powi e \<le> \<bar>x\<bar>" and "\<bar>x\<bar> < 2 powi (e + 1)"
    and "k = max e emin - (int p - 1)"
    and "x / 2 powi k = of_int n + 1 / 2" and "even n"
  shows "fl p emin x = of_int n * 2 powi k"
  unfolding fl_unfold [OF assms(1,2)] assms(3) [symmetric]
  using round_even_tie_even [OF assms(4,5)] by simp

lemma fl_repr:
  assumes x: "x = of_int m * 2 powi k" and m: "\<bar>m\<bar> < 2 ^ p"
    and k: "emin - (int p - 1) \<le> k"
  shows "fl p emin x = x"
proof (cases "x = 0")
  case True
  then show ?thesis by (simp add: fl_zero)
next
  case False
  define j where "j = max (binade x) emin - (int p - 1)"
  have "\<bar>x\<bar> = of_int \<bar>m\<bar> * 2 powi k" by (simp add: x abs_mult)
  also have "\<dots> < 2 ^ p * 2 powi k"
  proof (rule mult_strict_right_mono)
    from m have "(of_int \<bar>m\<bar> :: real) < of_int (2 ^ p)" by (simp only: of_int_less_iff)
    then show "(of_int \<bar>m\<bar> :: real) < 2 ^ p" by simp
  qed simp
  also have "\<dots> = 2 powi (int p + k)" by (simp add: power_int_add)
  finally have "\<bar>x\<bar> < 2 powi (int p + k)" .
  with binade_bounds(1) [OF False] have "(2::real) powi (binade x) < 2 powi (int p + k)"
    by linarith
  then have "binade x < int p + k"
    by (rule pow2_less_imp)
  with k have jk: "j \<le> k" by (simp add: j_def)
  then have "(2::real) powi k = 2 powi (k - j) * 2 powi j"
    by (simp add: power_int_add [symmetric])
  moreover from jk have "(2::real) powi (k - j) = of_int (2 ^ nat (k - j))"
    by (simp add: power_int_nonneg_exp)
  ultimately have e: "x = of_int (m * 2 ^ nat (k - j)) * 2 powi j"
    by (simp add: x)
  then have "x / 2 powi j = of_int (m * 2 ^ nat (k - j))" by simp
  then have r: "round_even (x / 2 powi j) = m * 2 ^ nat (k - j)"
    by (simp only: round_even_of_int)
  have "fl p emin x = of_int (round_even (x / 2 powi j)) * 2 powi j"
    using False by (simp add: fl_def Let_def j_def)
  also have "\<dots> = of_int (m * 2 ^ nat (k - j)) * 2 powi j" by (simp only: r)
  also have "\<dots> = x" by (rule e [symmetric])
  finally show ?thesis .
qed

lemma round_even_nonneg: "0 \<le> y \<Longrightarrow> 0 \<le> round_even y"
  using round_even_mono [of 0 y] round_even_of_int [of 0] by simp

lemma fl_nonneg:
  assumes "0 \<le> x"
  shows "0 \<le> fl p emin x"
proof (cases "x = 0")
  case True
  then show ?thesis by (simp add: fl_zero)
next
  case False
  have "0 \<le> x / 2 powi (max (binade x) emin - (int p - 1))"
    using assms by simp
  from round_even_nonneg [OF this] False show ?thesis
    by (simp add: fl_def Let_def)
qed

lemma fl_upper:
  assumes "0 < x"
  shows "fl p emin x \<le> 2 powi (max (binade x) emin + 1)"
proof -
  define E where "E = max (binade x) emin"
  define u :: real where "u = 2 powi (E - (int p - 1))"
  have u: "0 < u" by (simp add: u_def)
  from assms have nz: "x \<noteq> 0" by simp
  have "\<bar>x\<bar> < 2 powi (binade x + 1)" using nz by (rule binade_bounds)
  also have "\<dots> \<le> 2 powi (E + 1)"
    by (intro power_int_increasing) (simp_all add: E_def)
  finally have "x < 2 powi (E + 1)" using assms by simp
  then have "x / u < 2 powi (E + 1) / u" using u by (simp add: divide_strict_right_mono)
  also have "2 powi (E + 1) / u = 2 powi (int p)"
    by (simp add: u_def power_int_diff [symmetric])
  finally have "x / u \<le> of_int (2 ^ p)" by simp
  from round_even_mono [OF this] have "round_even (x / u) \<le> 2 ^ p"
    by (simp only: round_even_of_int)
  then have "(of_int (round_even (x / u)) :: real) \<le> of_int (2 ^ p)"
    by (simp only: of_int_le_iff)
  then have "of_int (round_even (x / u)) * u \<le> 2 ^ p * u"
    using u by (simp add: mult_right_mono)
  also have "2 ^ p * u = 2 powi (E + 1)"
    by (simp add: u_def power_int_add [symmetric] flip: power_int_of_nat)
  finally show ?thesis using nz
    by (simp add: fl_def Let_def E_def u_def)
qed

lemma pow2_div: "(2::real) powi a / 2 powi b = 2 powi (a - b)"
  by (simp add: power_int_diff)

lemma pow2_mult: "(2::real) powi a * 2 powi b = 2 powi (a + b)"
  by (simp add: power_int_add)

lemma fl_lower:
  assumes "0 < x" and "emin \<le> binade x" and "1 \<le> p"
  shows "2 powi (binade x) \<le> fl p emin x"
proof -
  define E where "E = binade x"
  define u :: real where "u = 2 powi (E - (int p - 1))"
  have u: "0 < u" by (simp add: u_def)
  from assms have nz: "x \<noteq> 0" by simp
  from assms(2) have m: "max (binade x) emin = E" by (simp add: E_def)
  from assms(3) have pp: "int p - 1 = int (p - 1)" by simp
  have q: "2 powi E / u = of_int (2 ^ (p - 1))"
    unfolding u_def pow2_div by (simp add: pp)
  have "2 powi E \<le> \<bar>x\<bar>" unfolding E_def using nz by (rule binade_bounds)
  with assms(1) have "2 powi E \<le> x" by simp
  then have "2 powi E / u \<le> x / u" using u by (rule divide_right_mono [OF _ less_imp_le])
  then have "of_int (2 ^ (p - 1)) \<le> x / u" by (simp only: q)
  from round_even_mono [OF this] have "2 ^ (p - 1) \<le> round_even (x / u)"
    by (simp only: round_even_of_int)
  then have "(of_int (2 ^ (p - 1)) :: real) \<le> of_int (round_even (x / u))"
    by (simp only: of_int_le_iff)
  then have "of_int (2 ^ (p - 1)) * u \<le> of_int (round_even (x / u)) * u"
    using u by (rule mult_right_mono [OF _ less_imp_le])
  moreover have "of_int (2 ^ (p - 1)) * u = 2 powi E"
    using q u by (simp add: field_simps)
  moreover have "fl p emin x = of_int (round_even (x / u)) * u"
    using nz by (simp add: fl_def Let_def m u_def)
  ultimately show ?thesis by (simp add: E_def)
qed

lemma fl_mono_pos:
  assumes "1 \<le> p" and "0 < x" and "x \<le> y"
  shows "fl p emin x \<le> fl p emin y"
proof (cases "max (binade x) emin = max (binade y) emin")
  case True
  define u :: real where "u = 2 powi (max (binade x) emin - (int p - 1))"
  have u: "0 < u" by (simp add: u_def)
  from assms have "x / u \<le> y / u" using u by (simp add: divide_right_mono)
  from round_even_mono [OF this]
  have "(of_int (round_even (x / u)) :: real) \<le> of_int (round_even (y / u))"
    by (simp only: of_int_le_iff)
  then have "of_int (round_even (x / u)) * u \<le> of_int (round_even (y / u)) * u"
    using u by (simp add: mult_right_mono)
  moreover from assms have "x \<noteq> 0" "y \<noteq> 0" by simp_all
  ultimately show ?thesis
    by (simp add: fl_def Let_def True [symmetric] u_def)
next
  case False
  from assms have y: "0 < y" by simp
  have "binade x \<le> binade y" using assms(2,3) by (rule binade_mono)
  with False have lt: "max (binade x) emin < max (binade y) emin" by (simp add: max_def split: if_splits)
  then have e: "emin \<le> binade y" "max (binade x) emin + 1 \<le> binade y"
    by (simp_all add: max_def split: if_splits)
  have "fl p emin x \<le> 2 powi (max (binade x) emin + 1)" using assms(2) by (rule fl_upper)
  also have "\<dots> \<le> 2 powi (binade y)"
    using e(2) by (intro power_int_increasing) simp_all
  also have "\<dots> \<le> fl p emin y" using y e(1) assms(1) by (rule fl_lower)
  finally show ?thesis .
qed

lemma fl_mono:
  assumes "1 \<le> p" and "x \<le> y"
  shows "fl p emin x \<le> fl p emin y"
proof -
  consider "0 < x" | "y < 0" | "x \<le> 0" "0 \<le> y" by linarith
  then show ?thesis
  proof cases
    case 1
    with assms show ?thesis by (intro fl_mono_pos)
  next
    case 2
    with assms have "0 < - y" "- y \<le> - x" by simp_all
    with assms(1) have "fl p emin (- y) \<le> fl p emin (- x)" by (intro fl_mono_pos)
    then show ?thesis by (simp add: fl_minus)
  next
    case 3
    then have "0 \<le> fl p emin y" "0 \<le> fl p emin (- x)" by (simp_all add: fl_nonneg)
    then show ?thesis by (simp add: fl_minus)
  qed
qed

lemma fl_error:
  assumes "emin \<le> 0"
  shows "\<bar>fl p emin x - x\<bar> \<le> 2 powi (- int p) * (\<bar>x\<bar> + 1)"
proof (cases "x = 0")
  case True
  then show ?thesis by (simp add: fl_zero)
next
  case False
  define E where "E = max (binade x) emin"
  define u :: real where "u = 2 powi (E - (int p - 1))"
  have u: "0 < u" by (simp add: u_def)
  have f: "fl p emin x = of_int (round_even (x / u)) * u"
    using False by (simp add: fl_def Let_def E_def u_def)
  have "\<bar>of_int (round_even (x / u)) - x / u\<bar> \<le> 1 / 2" by (rule round_even_error)
  then have "\<bar>of_int (round_even (x / u)) - x / u\<bar> * u \<le> 1 / 2 * u"
    using u by (simp add: mult_right_mono)
  moreover have "\<bar>of_int (round_even (x / u)) - x / u\<bar> * u = \<bar>fl p emin x - x\<bar>"
  proof -
    have "(of_int (round_even (x / u)) - x / u) * u = fl p emin x - x"
      using u by (simp add: f left_diff_distrib)
    then have "\<bar>fl p emin x - x\<bar> = \<bar>of_int (round_even (x / u)) - x / u\<bar> * \<bar>u\<bar>"
      by (simp only: abs_mult [symmetric])
    with u show ?thesis by simp
  qed
  ultimately have b: "\<bar>fl p emin x - x\<bar> \<le> u / 2" by simp
  have "(2::real) powi (- int p) * 2 powi E = 2 powi (E - (int p - 1) - 1)"
    unfolding pow2_mult by (simp add: algebra_simps)
  also have "\<dots> = u / 2 powi 1" unfolding u_def pow2_div ..
  finally have "u / 2 = 2 powi (- int p) * 2 powi E" by simp
  also have "2 powi E \<le> \<bar>x\<bar> + 1"
  proof (cases "emin \<le> binade x")
    case True
    then have "E = binade x" by (simp add: E_def)
    with binade_bounds(1) [OF False] show ?thesis by simp
  next
    case False
    then have "E = emin" by (simp add: E_def)
    moreover from assms have "(2::real) powi emin \<le> 2 powi 0"
      by (intro power_int_increasing) simp_all
    ultimately show ?thesis by simp
  qed
  finally show ?thesis using b by (simp add: mult_left_mono)
qed

lemma fl64_repr:
  assumes "x = of_int m * 2 powi k" and "\<bar>m\<bar> < 2 ^ 53" and "- 1074 \<le> k"
  shows "fl64 x = x"
  unfolding fl64_def using assms by (intro fl_repr [of x m k]) simp_all

lemma fround_repr:
  assumes "x = of_int m * 2 powi k" and "\<bar>m\<bar> < 2 ^ 24" and "- 149 \<le> k"
  shows "fround x = x"
  unfolding fround_def using assms by (intro fl_repr [of x m k]) simp_all

lemma fl64_evalI:
  assumes "2 powi e \<le> \<bar>x\<bar>" and "\<bar>x\<bar> < 2 powi (e + 1)" and "- 1022 \<le> e"
    and "\<bar>x / 2 powi (e - 52) - of_int n\<bar> < 1 / 2"
  shows "fl64 x = of_int n * 2 powi (e - 52)"
  unfolding fl64_def using assms by (intro fl_evalI [of e]) simp_all

lemma fround_evalI:
  assumes "2 powi e \<le> \<bar>x\<bar>" and "\<bar>x\<bar> < 2 powi (e + 1)" and "- 126 \<le> e"
    and "\<bar>x / 2 powi (e - 23) - of_int n\<bar> < 1 / 2"
  shows "fround x = of_int n * 2 powi (e - 23)"
  unfolding fround_def using assms by (intro fl_evalI [of e]) simp_all

lemma fl64_0: "fl64 0 = 0"
  by (simp add: fl64_def fl_zero)

lemma fround_0: "fround 0 = 0"
  by (simp add: fround_def fl_zero)

lemma fl64_1: "fl64 1 = 1"
  by (rule fl64_repr [of _ 1 0]) simp_all

lemma fl64_mono: "x \<le> y \<Longrightarrow> fl64 x \<le> fl64 y"
  unfolding fl64_def by (rule fl_mono) simp

lemma fround_mono: "x \<le> y \<Longrightarrow> fround x \<le> fround y"
  unfolding fround_def by (rule fl_mono) simp

lemma fl64_error: "\<bar>fl64 x - x\<bar> \<le> (\<bar>x\<bar> + 1) / 2 ^ 53"
  using fl_error [of "- 1022" 53 x] by (simp add: fl64_def power_int_minus_divide)

lemma fround_error: "\<bar>fround x - x\<bar> \<le> (\<bar>x\<bar> + 1) / 2 ^ 24"
  using fl_error [of "- 126" 24 x] by (simp add: fround_def power_int_minus_divide)

section \<open>Feature extraction: proofs\<close>

lemmas landmark_index_defs =
  WRIST_def THUMB_IP_def THUMB_TIP_def INDEX_FINGER_PIP_def INDEX_FINGER_TIP_def
  MIDDLE_FINGER_MCP_def MIDDLE_FINGER_PIP_def MIDDLE_FINGER_TIP_def RING_FINGER_PIP_def
  RING_FINGER_TIP_def PINKY_MCP_def PINKY_PIP_def PINKY_TIP_def

lemmas extended_defs =
  isThumbExtended_def isIndexExtended_def isMiddleExtended_def isRingExtended_def
  isPinkyExtended_def


lemma analyzeHand_Inr:
  assumes "21 \<le> length lm"
  shows "analyzeHand lm = Inr
    \<lparr> fingerCount = (if isThumbExtended lm then 1 else 0) + (if isIndexExtended lm then 1 else 0)
        + (if isMiddleExtended lm then 1 else 0) + (if isRingExtended lm then 1 else 0)
        + (if isPinkyExtended lm then 1 else 0),
      isFist = (\<not> isIndexExtended lm \<and> \<not> isMiddleExtended lm \<and> \<not> isRingExtended lm
                 \<and> \<not> isPinkyExtended lm),
      position = lm ! 9,
      palmDepth = distance (lm ! 0) (lm ! 9) \<rparr>"
  using assms by (auto simp add: analyzeHand_def Let_def landmark_index_defs)

text \<open>
  Claim C2. On a set of 21 landmarks \<open>analyzeHand\<close> returns metrics, and \<open>isFist\<close> holds
  exactly when \<open>fingerCount\<close> is 0, or is 1 with none of index, middle, ring and pinky
  extended. A hand with only the thumb extended gives a fist with finger count 1; a hand
  with no digit extended gives a fist with finger count 0.
\<close>

theorem analyzeHand_isFist:
  assumes "length lm = 21"
  shows "\<exists>m. analyzeHand lm = Inr m \<and>
    (isFist m \<longleftrightarrow>
       fingerCount m = 0 \<or>
       (fingerCount m = 1 \<and> \<not> isIndexExtended lm \<and> \<not> isMiddleExtended lm
          \<and> \<not> isRingExtended lm \<and> \<not> isPinkyExtended lm)) \<and>
    (isThumbExtended lm \<and> \<not> isIndexExtended lm \<and> \<not> isMiddleExtended lm
       \<and> \<not> isRingExtended lm \<and> \<not> isPinkyExtended lm
       \<longrightarrow> isFist m \<and> fingerCount m = 1) \<and>
    (\<not> isThumbExtended lm \<and> \<not> isIndexExtended lm \<and> \<not> isMiddleExtended lm
       \<and> \<not> isRingExtended lm \<and> \<not> isPinkyExtended lm
       \<longrightarrow> isFist m \<and> fingerCount m = 0)"
proof -
  from assms have "21 \<le> length lm" by simp
  note r = analyzeHand_Inr [OF this]
  show ?thesis unfolding r by (intro exI conjI, rule refl) auto
qed

lemma closed_hand_flags:
  "\<not> isThumbExtended closed_hand" "\<not> isIndexExtended closed_hand"
  "\<not> isMiddleExtended closed_hand" "\<not> isRingExtended closed_hand"
  "\<not> isPinkyExtended closed_hand"
  by (simp_all add: extended_defs landmark_index_defs closed_hand_def distance_def origin_def fl64_0 fl64_1)

lemma thumb_out_hand_flags:
  "isThumbExtended thumb_out_hand" "\<not> isIndexExtended thumb_out_hand"
  "\<not> isMiddleExtended thumb_out_hand" "\<not> isRingExtended thumb_out_hand"
  "\<not> isPinkyExtended thumb_out_hand"
  by (simp_all add: extended_defs landmark_index_defs thumb_out_hand_def closed_hand_def
      distance_def origin_def fl64_0 fl64_1)

lemma index_out_hand_flags:
  "\<not> isThumbExtended index_out_hand" "isIndexExtended index_out_hand"
  "\<not> isMiddleExtended index_out_hand" "\<not> isRingExtended index_out_hand"
  "\<not> isPinkyExtended index_out_hand"
  by (simp_all add: extended_defs landmark_index_defs index_out_hand_def closed_hand_def
      distance_def origin_def fl64_0 fl64_1)

theorem analyzeHand_isFist_witness:
  "length thumb_out_hand = 21 \<and> length closed_hand = 21 \<and> length index_out_hand = 21 \<and>
   map_sum id (\<lambda>m. (isFist m, fingerCount m)) (analyzeHand thumb_out_hand) = Inr (True, 1) \<and>
   map_sum id (\<lambda>m. (isFist m, fingerCount m)) (analyzeHand closed_hand) = Inr (True, 0) \<and>
   map_sum id (\<lambda>m. (isFist m, fingerCount m)) (analyzeHand index_out_hand) = Inr (False, 1)"
proof -
  have l: "length thumb_out_hand = 21" "length closed_hand = 21" "length index_out_hand = 21"
    by (simp_all add: thumb_out_hand_def closed_hand_def index_out_hand_def)
  show ?thesis
    using analyzeHand_isFist [OF l(1)] analyzeHand_isFist [OF l(2)] analyzeHand_isFist [OF l(3)]
      analyzeHand_Inr [of index_out_hand]
    by (auto simp add: l closed_hand_flags thumb_out_hand_flags index_out_hand_flags)
qed







section \<open>Gesture mapping: proofs\<close>


lemma f32_set_same_length:
  "length source = length target \<Longrightarrow> f32_set target source = Inr source"
  by (simp add: f32_set_def)

lemma f32_set_fits:
  "length source \<le> length target \<Longrightarrow> \<exists>buf. f32_set target source = Inr buf"
  by (simp add: f32_set_def)

lemma shapeSelection_fist:
  "isFist m \<Longrightarrow> shapeSelection shp m st = Inr st"
  by (simp add: shapeSelection_def)

lemma shapeSelection_out_of_range:
  "fingerCount m \<notin> {1..5} \<Longrightarrow> shapeSelection shp m st = Inr st"
  by (auto simp add: shapeSelection_def)

lemma shape_table_spec_nth:
  "shape_table_spec ! 0 = HEART" "shape_table_spec ! Suc 0 = FLOWER"
  "shape_table_spec ! 2 = PORTAL" "shape_table_spec ! 3 = HEXAGRAM"
  "shape_table_spec ! 4 = TREE"
  by (simp_all add: shape_table_spec_def nth_Cons')

lemma shapeSelection_open:
  assumes "\<not> isFist m" and "fingerCount m \<in> {1..5}"
    and "length (shp (shape_table_spec ! nat (fingerCount m - 1))) = length (targetPositions st)"
  shows "shapeSelection shp m st =
     Inr (if shape_table_spec ! nat (fingerCount m - 1) \<noteq> currentShape st
          then st \<lparr> currentShape := shape_table_spec ! nat (fingerCount m - 1),
                    targetPositions := shp (shape_table_spec ! nat (fingerCount m - 1)) \<rparr>
          else st)"
proof -
  from assms(2) consider "fingerCount m = 1" | "fingerCount m = 2" | "fingerCount m = 3"
    | "fingerCount m = 4" | "fingerCount m = 5"
    by (auto simp add: atLeastAtMost_iff) arith
  then show ?thesis
    using assms(1,3)
    by cases (simp_all add: shapeSelection_def shape_table_spec_nth f32_set_same_length)
qed

lemma shapeSelection_total:
  assumes "\<forall>s. length (shp s) \<le> length (targetPositions st)"
  shows "\<exists>st1. shapeSelection shp m st = Inr st1 \<and>
           rotationSpeed st1 = rotationSpeed st \<and> groupScale st1 = groupScale st \<and>
           targetColor st1 = targetColor st"
proof -
  have n: "\<not> length (targetPositions st) < length (shp s)" for s
    using assms by (simp add: not_less)
  show ?thesis
    by (simp add: shapeSelection_def f32_set_def Let_def n)
qed

lemma physics_frame:
  "currentShape (physics m st) = currentShape st"
  "targetPositions (physics m st) = targetPositions st"
  "targetColor (physics m st) = targetColor st"
  by (simp_all add: physics_def Let_def)

lemma colorMode_frame:
  "currentShape (colorMode setHSL m st) = currentShape st"
  "targetPositions (colorMode setHSL m st) = targetPositions st"
  "groupScale (colorMode setHSL m st) = groupScale st"
  "rotationSpeed (colorMode setHSL m st) = rotationSpeed st"
  by (simp_all add: colorMode_def Let_def)

lemma handleMetrics_Some:
  "shapeSelection shp m st = Inr st1 \<Longrightarrow>
   handleMetrics setHSL shp (Some m) st = Inr (physics m (colorMode setHSL m st1))"
  by (simp add: handleMetrics_def)

lemma test_shapes_length: "length (test_shapes s) = 3"
  by (cases s) (simp_all add: test_shapes_def)

text \<open>
  Claim C1. In a metrics update with \<open>isFist\<close> false and finger count \<open>k\<close> from 1 to 5, the
  selected shape is entry \<open>k - 1\<close> of HEART, FLOWER, PORTAL, HEXAGRAM, TREE; when it
  differs from the current shape, the target buffer becomes the cached buffer of that
  shape and the current shape is updated, and otherwise both stay. With \<open>isFist\<close> true, or
  a finger count outside 1 to 5, the current shape and the target buffer are unchanged.
  The cached buffers and the target buffer have the same length, as allocated.
\<close>

theorem handleMetrics_shape:
  assumes "\<forall>s. length (shp s) = length (targetPositions st)"
  shows "\<exists>st'. handleMetrics setHSL shp (Some m) st = Inr st' \<and>
    (\<not> isFist m \<and> fingerCount m \<in> {1..5} \<longrightarrow>
       (shape_table_spec ! nat (fingerCount m - 1) \<noteq> currentShape st \<longrightarrow>
          currentShape st' = shape_table_spec ! nat (fingerCount m - 1) \<and>
          targetPositions st' = shp (shape_table_spec ! nat (fingerCount m - 1))) \<and>
       (shape_table_spec ! nat (fingerCount m - 1) = currentShape st \<longrightarrow>
          currentShape st' = currentShape st \<and>
          targetPositions st' = targetPositions st)) \<and>
    (isFist m \<or> fingerCount m \<notin> {1..5} \<longrightarrow>
       currentShape st' = currentShape st \<and> targetPositions st' = targetPositions st)"
proof (cases "\<not> isFist m \<and> fingerCount m \<in> {1..5}")
  case True
  then have a: "\<not> isFist m" and b: "fingerCount m \<in> {1..5}" by simp_all
  from assms have
    "length (shp (shape_table_spec ! nat (fingerCount m - 1))) = length (targetPositions st)"
    by simp
  with a b have sel: "shapeSelection shp m st =
     Inr (if shape_table_spec ! nat (fingerCount m - 1) \<noteq> currentShape st
          then st \<lparr> currentShape := shape_table_spec ! nat (fingerCount m - 1),
                    targetPositions := shp (shape_table_spec ! nat (fingerCount m - 1)) \<rparr>
          else st)"
    by (rule shapeSelection_open)
  show ?thesis
    unfolding handleMetrics_Some [OF sel]
    using True by (simp add: physics_frame colorMode_frame)
next
  case False
  then have "shapeSelection shp m st = Inr st"
    using shapeSelection_fist shapeSelection_out_of_range by blast
  note sel = this
  show ?thesis
    unfolding handleMetrics_Some [OF sel]
    using False by (auto simp add: physics_frame colorMode_frame)
qed

theorem handleMetrics_shape_witness:
  "(\<forall>s. length (test_shapes s) = length (targetPositions test_state)) \<and>
   map_sum id (\<lambda>st. (currentShape st, targetPositions st))
     (handleMetrics test_setHSL test_shapes (Some (open_metrics 2 0.2)) test_state)
     = Inr (FLOWER, [4, 5, 6]) \<and>
   map_sum id (\<lambda>st. (currentShape st, targetPositions st))
     (handleMetrics test_setHSL test_shapes (Some (open_metrics 1 0.2)) test_state)
     = Inr (HEART, [1, 2, 3]) \<and>
   map_sum id (\<lambda>st. (currentShape st, targetPositions st))
     (handleMetrics test_setHSL test_shapes (Some (open_metrics 0 0.2)) test_state)
     = Inr (HEART, [1, 2, 3]) \<and>
   map_sum id (\<lambda>st. (currentShape st, targetPositions st))
     (handleMetrics test_setHSL test_shapes (Some (fist_metrics 0.5)) test_state)
     = Inr (HEART, [1, 2, 3])"
proof -
  have l: "\<forall>s. length (test_shapes s) = length (targetPositions test_state)"
    by (simp add: test_shapes_length test_state_def)
  have t: "test_shapes FLOWER = [4, 5, 6]" "currentShape test_state = HEART"
    "targetPositions test_state = [1, 2, 3]"
    by (simp_all add: test_shapes_def test_state_def)
  have m: "\<not> isFist (open_metrics k d)" "fingerCount (open_metrics k d) = k"
    "isFist (fist_metrics a)" for k d a
    by (simp_all add: open_metrics_def fist_metrics_def)
  show ?thesis
    using handleMetrics_shape [OF l, of test_setHSL "open_metrics 2 0.2"]
      handleMetrics_shape [OF l, of test_setHSL "open_metrics 1 0.2"]
      handleMetrics_shape [OF l, of test_setHSL "open_metrics 0 0.2"]
      handleMetrics_shape [OF l, of test_setHSL "fist_metrics 0.5"]
    by (auto simp add: l t m shape_table_spec_nth)
qed









section \<open>Animation loop: proofs\<close>

declare particle_loop.simps [simp del]

lemma particle_step_length: "length (fst (particle_step f rnd target i k p)) = length p"
  by (simp add: particle_step_def Let_def)

lemma particle_step_snd: "snd (particle_step f rnd target i k p) = k + 3"
  by (simp add: particle_step_def Let_def)

lemma particle_step_nth:
  assumes "i * 3 + 2 < length p"
  shows "fst (particle_step f rnd target i k p) ! j =
    (if j = i * 3 then jitter_coord (rnd k) (lerp_coord f (target ! j) (p ! j))
     else if j = i * 3 + 1 then jitter_coord (rnd (k + 1)) (lerp_coord f (target ! j) (p ! j))
     else if j = i * 3 + 2 then jitter_coord (rnd (k + 2)) (lerp_coord f (target ! j) (p ! j))
     else p ! j)"
  using assms
  by (simp add: particle_step_def Let_def nth_list_update jitter_coord_def lerp_coord_def
      jitter64_def)

lemma particle_loop_done: "\<not> i < n \<Longrightarrow> particle_loop f rnd target n i k p = (p, k)"
  by (simp add: particle_loop.simps)

lemma particle_loop_step:
  assumes "i < n"
  shows "particle_loop f rnd target n i k p =
     particle_loop f rnd target n (Suc i) (k + 3) (fst (particle_step f rnd target i k p))"
proof -
  obtain p' where e: "particle_step f rnd target i k p = (p', k + 3)"
    using particle_step_snd [of f rnd target i k p]
    by (cases "particle_step f rnd target i k p") simp
  show ?thesis
    using assms by (subst particle_loop.simps) (simp add: e)
qed

lemma particle_loop_length: "length (fst (particle_loop f rnd target n i k p)) = length p"
proof (induction "n - i" arbitrary: i k p)
  case 0
  then show ?case by (simp add: particle_loop_done)
next
  case (Suc d)
  then have "i < n" and "d = n - Suc i" by simp_all
  then show ?case
    using Suc.hyps(1) [of "Suc i"] by (simp add: particle_loop_step particle_step_length)
qed

lemma particle_loop_nth:
  assumes "length p = n * 3" and "j < n * 3"
  shows "fst (particle_loop f rnd target n i (i * 3) p) ! j =
    (if i * 3 \<le> j then jitter_coord (rnd j) (lerp_coord f (target ! j) (p ! j)) else p ! j)"
  using assms
proof (induction "n - i" arbitrary: i p)
  case 0
  then show ?case by (simp add: particle_loop_done)
next
  case (Suc d)
  then have i: "i < n" and d: "d = n - Suc i" by simp_all
  let ?p = "fst (particle_step f rnd target i (i * 3) p)"
  have len: "length ?p = n * 3" using Suc.prems by (simp add: particle_step_length)
  from i Suc.prems have r: "i * 3 + 2 < length p" by simp
  have "fst (particle_loop f rnd target n i (i * 3) p) ! j =
        fst (particle_loop f rnd target n (Suc i) (Suc i * 3) ?p) ! j"
    using i by (simp add: particle_loop_step add.commute)
  also have "\<dots> = (if Suc i * 3 \<le> j
        then jitter_coord (rnd j) (lerp_coord f (target ! j) (?p ! j)) else ?p ! j)"
    using Suc.hyps(1) [OF d len Suc.prems(2)] .
  also have "\<dots> = (if i * 3 \<le> j
        then jitter_coord (rnd j) (lerp_coord f (target ! j) (p ! j)) else p ! j)"
  proof -
    consider "j < i * 3" | "j = i * 3" | "j = i * 3 + 1" | "j = i * 3 + 2" | "Suc i * 3 \<le> j"
      by atomize_elim arith
    then show ?thesis
      by cases (simp_all add: particle_step_nth [OF r])
  qed
  finally show ?case .
qed

lemma animate_frame:
  "targetPositions (animate n rnd st) = targetPositions st"
  "targetColor (animate n rnd st) = targetColor st"
  "currentShape (animate n rnd st) = currentShape st"
  "rotationSpeed (animate n rnd st) = rotationSpeed st"
  "groupScale (animate n rnd st) = groupScale st"
  by (simp_all add: animate_def Let_def)

lemma animate_fields:
  "currentColor (animate n rnd st) =
     color_lerp (currentColor st) (targetColor st) COLOR_LERP_FACTOR"
  "materialColor (animate n rnd st) = currentColor (animate n rnd st)"
  "positions (animate n rnd st) =
     fst (particle_loop (fl64 POS_LERP_FACTOR) rnd (targetPositions st) n 0 0 (positions st))"
  "rotation_z (animate n rnd st) = fl64 (rotation_z st + rotationSpeed st)"
  "rotation_y (animate n rnd st) = fl64 (rotation_y st + fl64 (rotationSpeed st * 0.5))"
  "scale (animate n rnd st) =
     vector3_lerp (scale st) \<lparr> px = groupScale st, py = groupScale st, pz = groupScale st \<rparr> 0.1"
  by (simp_all add: animate_def Let_def)


lemma animate_positions_nth:
  assumes "length (positions st) = n * 3" and "j < n * 3"
  shows "positions (animate n rnd st) ! j =
     jitter_coord (rnd j)
       (lerp_coord (fl64 POS_LERP_FACTOR) (targetPositions st ! j) (positions st ! j))"
  using particle_loop_nth [OF assms, of "fl64 POS_LERP_FACTOR" rnd "targetPositions st" 0]
  by (simp add: animate_fields)

subsection \<open>Rounding in one coordinate update\<close>

lemma fl64_evalI_tie:
  assumes "2 powi e \<le> \<bar>x\<bar>" and "\<bar>x\<bar> < 2 powi (e + 1)" and "- 1022 \<le> e"
    and "x / 2 powi (e - 52) = of_int n + 1 / 2" and "even n"
  shows "fl64 x = of_int n * 2 powi (e - 52)"
  unfolding fl64_def using assms by (intro fl_evalI_tie [of e]) simp_all

lemma fl64_half: "fl64 (1 / 2) = 1 / 2" "fl64 (- (1 / 2)) = - (1 / 2)"
  by (rule fl64_repr [of _ 1 "- 1"], simp, simp, simp)
     (rule fl64_repr [of _ "- 1" "- 1"], simp, simp, simp)

lemma program_constants:
  "fl64 0.08 = 5764607523034235 / 2 ^ 56"
  "fl64 0.05 = 3602879701896397 / 2 ^ 56"
  "fl64 0.025 = 3602879701896397 / 2 ^ 57"
proof -
  show "fl64 0.08 = 5764607523034235 / 2 ^ 56"
    using fl64_evalI [of "- 4" "0.08" 5764607523034235] by simp
  show "fl64 0.05 = 3602879701896397 / 2 ^ 56"
    using fl64_evalI [of "- 5" "0.05" 7205759403792794] by simp
  show "fl64 0.025 = 3602879701896397 / 2 ^ 57"
    using fl64_evalI [of "- 6" "0.025" 7205759403792794] by simp
qed

lemma jitter64_range:
  assumes "0 \<le> r" and "r < 1"
  shows "- fl64 0.025 \<le> jitter64 r" and "jitter64 r \<le> fl64 0.025"
proof -
  let ?c = "3602879701896397 / 2 ^ 56 :: real"
  have h: "fl64 (1 / 2 * ?c) = 3602879701896397 / 2 ^ 57"
    "fl64 (- (1 / 2) * ?c) = - (3602879701896397 / 2 ^ 57)"
    using fl64_evalI [of "- 6" "1 / 2 * ?c" "7205759403792794"]
      fl64_evalI [of "- 6" "- (1 / 2) * ?c" "- 7205759403792794"] by simp_all
  from assms have "- (1 / 2) \<le> r - 0.5" "r - 0.5 \<le> 1 / 2" by simp_all
  from fl64_mono [OF this(1)] fl64_mono [OF this(2)]
  have w: "- (1 / 2) \<le> fl64 (r - 0.5)" "fl64 (r - 0.5) \<le> 1 / 2"
    by (simp_all only: fl64_half)
  then have "- (1 / 2) * ?c \<le> fl64 (r - 0.5) * ?c" "fl64 (r - 0.5) * ?c \<le> 1 / 2 * ?c"
    by (simp_all add: mult_right_mono)
  from fl64_mono [OF this(1)] fl64_mono [OF this(2)]
  show "- fl64 0.025 \<le> jitter64 r" and "jitter64 r \<le> fl64 0.025"
    by (simp_all only: h program_constants jitter64_def)
qed

lemma fl64_ge_self:
  assumes "fl64 z = z" and "0 \<le> s"
  shows "z \<le> fl64 (z + s)"
proof -
  from assms(2) have "z \<le> z + s" by simp
  from fl64_mono [OF this] assms(1) show ?thesis by simp
qed

lemma pw:
  "(2::real) ^ 53 = 9007199254740992" "(2::real) ^ 24 = 16777216"
  "(2::real) ^ 21 = 2097152" "(2::real) ^ 50 = 1125899906842624"
  "(10::real)\<^sup>2 = 100"
  by simp_all

lemma fl64_error_bound:
  assumes "\<bar>x\<bar> \<le> K" 
  shows "x - (K + 1) / 2 ^ 53 \<le> fl64 x" and "fl64 x \<le> x + (K + 1) / 2 ^ 53"
proof -
  have "\<bar>fl64 x - x\<bar> \<le> (\<bar>x\<bar> + 1) / 2 ^ 53" by (rule fl64_error)
  also have "\<dots> \<le> (K + 1) / 2 ^ 53" using assms by (simp add: divide_right_mono)
  finally have e: "\<bar>fl64 x - x\<bar> \<le> (K + 1) / 2 ^ 53" .
  show "x - (K + 1) / 2 ^ 53 \<le> fl64 x" using e unfolding pw by argo
  show "fl64 x \<le> x + (K + 1) / 2 ^ 53" using e unfolding pw by argo
qed

lemma fround_error_bound:
  assumes "\<bar>x\<bar> \<le> K" 
  shows "x - (K + 1) / 2 ^ 24 \<le> fround x" and "fround x \<le> x + (K + 1) / 2 ^ 24"
proof -
  have "\<bar>fround x - x\<bar> \<le> (\<bar>x\<bar> + 1) / 2 ^ 24" by (rule fround_error)
  also have "\<dots> \<le> (K + 1) / 2 ^ 24" using assms by (simp add: divide_right_mono)
  finally have e: "\<bar>fround x - x\<bar> \<le> (K + 1) / 2 ^ 24" .
  show "x - (K + 1) / 2 ^ 24 \<le> fround x" using e unfolding pw by argo
  show "fround x \<le> x + (K + 1) / 2 ^ 24" using e unfolding pw by argo
qed

lemma scaled_in_range:
  fixes x f K :: real
  assumes "0 \<le> f" and "f \<le> 1" and "\<bar>x\<bar> \<le> K"
  shows "\<bar>x * f\<bar> \<le> K"
proof -
  have "\<bar>x * f\<bar> = \<bar>x\<bar> * f" using assms(1) by (simp add: abs_mult)
  also have "\<dots> \<le> \<bar>x\<bar> * 1" using assms(2) by (intro mult_left_mono) simp_all
  finally show ?thesis using assms(3) by simp
qed

lemma convex_in_range:
  fixes p t f D :: real
  assumes "0 \<le> f" and "f \<le> 1" and "\<bar>p\<bar> \<le> D" and "\<bar>t\<bar> \<le> D"
  shows "\<bar>p + (t - p) * f\<bar> \<le> D"
proof -
  have "p + (t - p) * f = (1 - f) * p + f * t" by (simp add: algebra_simps)
  also have "\<bar>\<dots>\<bar> \<le> \<bar>(1 - f) * p\<bar> + \<bar>f * t\<bar>" by (rule abs_triangle_ineq)
  also have "\<dots> = (1 - f) * \<bar>p\<bar> + f * \<bar>t\<bar>" using assms(1,2) by (simp add: abs_mult)
  also have "\<dots> \<le> (1 - f) * D + f * D"
    using assms by (intro add_mono mult_left_mono) simp_all
  also have "\<dots> = D" by (simp add: algebra_simps)
  finally show ?thesis .
qed

lemma lerp_coord_error:
  assumes f: "0 < f" "f \<le> 1" and D: "1 \<le> D" and p: "\<bar>p\<bar> \<le> D" and t: "\<bar>t\<bar> \<le> D"
  shows "\<bar>lerp_coord f t p - (p + (t - p) * f)\<bar> \<le> 3 * D / 2 ^ 24"
    and "\<bar>lerp_coord f t p\<bar> \<le> 2 * D"
proof -
  define a where "a = fl64 (t - p)"
  define u where "u = (t - p) * f"
  define v where "v = a * f"
  define b where "b = fl64 v"
  define s where "s = fl64 (p + b)"
  define m where "m = p + u"
  have q: "lerp_coord f t p = fround s"
    by (simp add: lerp_coord_def a_def b_def s_def v_def)
  from f have f0: "0 \<le> f" by simp
  have m: "\<bar>m\<bar> \<le> D" unfolding m_def u_def using f0 f(2) p t by (rule convex_in_range)
  from p t have "\<bar>t - p\<bar> \<le> 2 * D" unfolding pw by argo
  from fl64_error_bound [OF this]
  have a: "t - p - (2 * D + 1) / 2 ^ 53 \<le> a" "a \<le> t - p + (2 * D + 1) / 2 ^ 53"
    by (simp_all only: a_def)
  with p t D have a3: "\<bar>a\<bar> \<le> 3 * D" unfolding pw by argo
  from a have "\<bar>a - (t - p)\<bar> \<le> (2 * D + 1) / 2 ^ 53" unfolding pw by argo
  from scaled_in_range [OF f0 f(2) this]
  have vu: "\<bar>v - u\<bar> \<le> (2 * D + 1) / 2 ^ 53"
    by (simp add: v_def u_def left_diff_distrib)
  have "\<bar>v\<bar> \<le> 3 * D" unfolding v_def using f0 f(2) a3 by (rule scaled_in_range)
  from fl64_error_bound [OF this]
  have b: "v - (3 * D + 1) / 2 ^ 53 \<le> b" "b \<le> v + (3 * D + 1) / 2 ^ 53"
    by (simp_all only: b_def)
  from b vu m D have "\<bar>p + b\<bar> \<le> 2 * D" unfolding m_def pw by argo
  from fl64_error_bound [OF this]
  have s: "p + b - (2 * D + 1) / 2 ^ 53 \<le> s" "s \<le> p + b + (2 * D + 1) / 2 ^ 53"
    by (simp_all only: s_def)
  from s b vu m D have "\<bar>s\<bar> \<le> 3 / 2 * D" unfolding m_def pw by argo
  from fround_error_bound [OF this]
  have r: "s - (3 / 2 * D + 1) / 2 ^ 24 \<le> fround s" "fround s \<le> s + (3 / 2 * D + 1) / 2 ^ 24"
    by simp_all
  from r s b vu D have "\<bar>fround s - m\<bar> \<le> 3 * D / 2 ^ 24" unfolding m_def pw by argo
  then show "\<bar>lerp_coord f t p - (p + (t - p) * f)\<bar> \<le> 3 * D / 2 ^ 24"
    by (simp only: q m_def u_def)
  from r s b vu m D show "\<bar>lerp_coord f t p\<bar> \<le> 2 * D"
    unfolding q m_def pw by argo
qed

lemma jitter64_error:
  assumes "0 \<le> r" and "r < 1"
  shows "\<bar>jitter64 r - (r - 0.5) * 0.05\<bar> \<le> 1 / 2 ^ 50"
proof -
  define w where "w = fl64 (r - 0.5)"
  define c :: real where "c = 3602879701896397 / 2 ^ 56"
  define v where "v = w * c"
  have j: "jitter64 r = fl64 v"
    by (simp only: jitter64_def program_constants w_def c_def v_def)
  from assms have "\<bar>r - 0.5\<bar> \<le> 1 / 2" unfolding pw by argo
  from fl64_error_bound [OF this]
  have w: "r - 0.5 - (1 / 2 + 1) / 2 ^ 53 \<le> w" "w \<le> r - 0.5 + (1 / 2 + 1) / 2 ^ 53"
    by (simp_all only: w_def)
  have c0: "0 \<le> c" "c \<le> 1" by (simp_all add: c_def)
  from w have "\<bar>w - (r - 0.5)\<bar> \<le> (1 / 2 + 1) / 2 ^ 53" unfolding pw by argo
  from scaled_in_range [OF c0 this]
  have 1: "\<bar>v - (r - 0.5) * c\<bar> \<le> (1 / 2 + 1) / 2 ^ 53"
    by (simp add: v_def left_diff_distrib)
  have cc: "\<bar>c - 0.05\<bar> \<le> 1 / 2 ^ 53" by (simp add: c_def)
  from assms have rr: "0 \<le> \<bar>r - 0.5\<bar>" "\<bar>r - 0.5\<bar> \<le> 1" unfolding pw by argo+
  have "\<bar>(c - 0.05) * \<bar>r - 0.5\<bar>\<bar> \<le> 1 / 2 ^ 53"
    using rr cc by (rule scaled_in_range)
  moreover have "(r - 0.5) * c - (r - 0.5) * 0.05 = (c - 0.05) * (r - 0.5)"
    by (simp add: algebra_simps)
  moreover have "\<bar>(c - 0.05) * (r - 0.5)\<bar> = \<bar>(c - 0.05) * \<bar>r - 0.5\<bar>\<bar>"
    by (simp only: abs_mult abs_abs)
  ultimately have 2: "\<bar>(r - 0.5) * c - (r - 0.5) * 0.05\<bar> \<le> 1 / 2 ^ 53"
    by simp
  from w c0 assms have "\<bar>w\<bar> \<le> 1" unfolding pw by argo
  from scaled_in_range [OF c0 this] have "\<bar>v\<bar> \<le> 1" by (simp only: v_def)
  from fl64_error_bound [OF this]
  have "v - (1 + 1) / 2 ^ 53 \<le> fl64 v" "fl64 v \<le> v + (1 + 1) / 2 ^ 53" by simp_all
  with 1 2 show ?thesis unfolding j pw by argo
qed

lemma coord_update_error:
  assumes f: "0 < f" "f \<le> 1" and r: "0 \<le> r" "r < 1"
    and D: "1 \<le> D" and p: "\<bar>p\<bar> \<le> D" and t: "\<bar>t\<bar> \<le> D"
  shows "\<bar>jitter_coord r (lerp_coord f t p) - (p + (t - p) * f + (r - 0.5) * 0.05)\<bar>
           \<le> D / 2 ^ 21"
proof -
  define q where "q = lerp_coord f t p"
  define jd where "jd = jitter64 r"
  define m where "m = p + (t - p) * f"
  define jt where "jt = (r - 0.5) * 0.05"
  define s where "s = fl64 (q + jd)"
  have e: "jitter_coord r (lerp_coord f t p) = fround s"
    by (simp add: jitter_coord_def q_def jd_def s_def)
  have q: "\<bar>q - m\<bar> \<le> 3 * D / 2 ^ 24" "\<bar>q\<bar> \<le> 2 * D"
    unfolding q_def m_def using f D p t by (rule lerp_coord_error)+
  have jd: "\<bar>jd - jt\<bar> \<le> 1 / 2 ^ 50" unfolding jd_def jt_def using r by (rule jitter64_error)
  from r have jt: "\<bar>jt\<bar> \<le> 1 / 2" unfolding jt_def pw by argo
  from q jd jt D have "\<bar>q + jd\<bar> \<le> 3 * D" unfolding pw by argo
  from fl64_error_bound [OF this]
  have s: "q + jd - (3 * D + 1) / 2 ^ 53 \<le> s" "s \<le> q + jd + (3 * D + 1) / 2 ^ 53"
    by (simp_all only: s_def)
  from s q jd jt D have "\<bar>s\<bar> \<le> 3 * D" unfolding pw by argo
  from fround_error_bound [OF this]
  have "s - (3 * D + 1) / 2 ^ 24 \<le> fround s" "fround s \<le> s + (3 * D + 1) / 2 ^ 24"
    by simp_all
  with s q jd D have "\<bar>fround s - (m + jt)\<bar> \<le> D / 2 ^ 21" unfolding pw by argo
  then show ?thesis by (simp only: e m_def jt_def)
qed

lemma factor_error: "\<bar>fl64 0.08 - 0.08\<bar> \<le> 1 / 2 ^ 57"
  unfolding program_constants by simp

lemma factor_range: "0 < fl64 0.08" "fl64 0.08 \<le> 1"
  unfolding program_constants by simp_all

lemma slack_combine:
  fixes x p u v jt D :: real
  assumes "\<bar>x - (p + u + jt)\<bar> \<le> D / 2 ^ 21" and "\<bar>u - v\<bar> \<le> 2 * D / 2 ^ 57" and "1 \<le> D"
  shows "\<bar>x - (p + v + jt)\<bar> \<le> D / 2 ^ 20"
proof -
  have "\<bar>x - (p + v + jt)\<bar> \<le> \<bar>x - (p + u + jt)\<bar> + \<bar>u - v\<bar>" by simp
  also have "\<dots> \<le> D / 2 ^ 21 + 2 * D / 2 ^ 57" using assms(1,2) by simp
  also have "\<dots> \<le> D / 2 ^ 20" using assms(3) by simp
  finally show ?thesis .
qed

text \<open>
  Claim C7, as the code has it. One animation tick does exactly this. Each channel of the
  current colour moves by 5% of its gap to the target colour. Each particle coordinate
  \<open>p\<close> with target \<open>t\<close> is first replaced by the binary32 rounding of \<open>p + (t - p) * 0.08\<close>
  computed in binary64, and then by the binary32 rounding of that value plus a jitter
  \<open>(r - 0.5) * 0.05\<close> computed in binary64 from a draw \<open>r\<close> of its own; the jitter lies
  between minus and plus the binary64 value of 0.025, and the stored coordinate is within
  \<open>D / 2 ^ 20\<close> of \<open>p + 0.08 * (t - p) + (r - 0.5) * 0.05\<close> whenever \<open>p\<close> and \<open>t\<close> have
  magnitude at most \<open>D\<close>, for \<open>D\<close> from 1 to \<open>2 ^ 100\<close>. The object scale moves by 10% of its
  gap to the target scale. The two rotation angles are increased by \<open>rotationSpeed\<close> and by
  \<open>rotationSpeed * 0.5\<close>, each sum rounded to binary64, and do not decrease while the speed
  is not negative. Targets, speed and current shape are not touched.
\<close>

theorem animate_tick_rounded:
  assumes "length (positions st) = n * 3" and "length (targetPositions st) = n * 3"
    and "unit_draws rnd"
  shows
    "cr (currentColor (animate n rnd st)) =
        cr (currentColor st) + 0.05 * (cr (targetColor st) - cr (currentColor st)) \<and>
     cg (currentColor (animate n rnd st)) =
        cg (currentColor st) + 0.05 * (cg (targetColor st) - cg (currentColor st)) \<and>
     cb (currentColor (animate n rnd st)) =
        cb (currentColor st) + 0.05 * (cb (targetColor st) - cb (currentColor st)) \<and>
     materialColor (animate n rnd st) = currentColor (animate n rnd st) \<and>
     length (positions (animate n rnd st)) = n * 3 \<and>
     (\<forall>j < n * 3.
        positions (animate n rnd st) ! j =
          fround (fl64 (fround (fl64 (positions st ! j
                     + fl64 (fl64 (targetPositions st ! j - positions st ! j) * fl64 0.08)))
                   + fl64 (fl64 (rnd j - 0.5) * fl64 0.05))) \<and>
        - fl64 0.025 \<le> fl64 (fl64 (rnd j - 0.5) * fl64 0.05) \<and>
        fl64 (fl64 (rnd j - 0.5) * fl64 0.05) \<le> fl64 0.025 \<and>
        (\<forall>D. 1 \<le> D \<and> D \<le> 2 ^ 100 \<and> \<bar>positions st ! j\<bar> \<le> D \<and> \<bar>targetPositions st ! j\<bar> \<le> D
           \<longrightarrow> \<bar>positions (animate n rnd st) ! j
                  - (positions st ! j + 0.08 * (targetPositions st ! j - positions st ! j)
                       + (rnd j - 0.5) * 0.05)\<bar> \<le> D / 2 ^ 20)) \<and>
     px (scale (animate n rnd st)) = px (scale st) + 0.1 * (groupScale st - px (scale st)) \<and>
     py (scale (animate n rnd st)) = py (scale st) + 0.1 * (groupScale st - py (scale st)) \<and>
     pz (scale (animate n rnd st)) = pz (scale st) + 0.1 * (groupScale st - pz (scale st)) \<and>
     rotation_z (animate n rnd st) = fl64 (rotation_z st + rotationSpeed st) \<and>
     rotation_y (animate n rnd st) = fl64 (rotation_y st + fl64 (rotationSpeed st * 0.5)) \<and>
     (0 \<le> rotationSpeed st \<and> fl64 (rotation_z st) = rotation_z st
        \<and> fl64 (rotation_y st) = rotation_y st \<longrightarrow>
        rotation_z st \<le> rotation_z (animate n rnd st) \<and>
        rotation_y st \<le> rotation_y (animate n rnd st)) \<and>
     targetPositions (animate n rnd st) = targetPositions st \<and>
     targetColor (animate n rnd st) = targetColor st \<and>
     currentShape (animate n rnd st) = currentShape st \<and>
     rotationSpeed (animate n rnd st) = rotationSpeed st \<and>
     groupScale (animate n rnd st) = groupScale st"
proof -
  have col: "cr (currentColor (animate n rnd st)) =
        cr (currentColor st) + 0.05 * (cr (targetColor st) - cr (currentColor st))"
    "cg (currentColor (animate n rnd st)) =
        cg (currentColor st) + 0.05 * (cg (targetColor st) - cg (currentColor st))"
    "cb (currentColor (animate n rnd st)) =
        cb (currentColor st) + 0.05 * (cb (targetColor st) - cb (currentColor st))"
    by (simp_all add: animate_fields color_lerp_def COLOR_LERP_FACTOR_def)
  have len: "length (positions (animate n rnd st)) = n * 3"
    using assms(1) by (simp add: animate_fields particle_loop_length)
  have pos: "\<forall>j < n * 3.
        positions (animate n rnd st) ! j =
          fround (fl64 (fround (fl64 (positions st ! j
                     + fl64 (fl64 (targetPositions st ! j - positions st ! j) * fl64 0.08)))
                   + fl64 (fl64 (rnd j - 0.5) * fl64 0.05))) \<and>
        - fl64 0.025 \<le> fl64 (fl64 (rnd j - 0.5) * fl64 0.05) \<and>
        fl64 (fl64 (rnd j - 0.5) * fl64 0.05) \<le> fl64 0.025 \<and>
        (\<forall>D. 1 \<le> D \<and> D \<le> 2 ^ 100 \<and> \<bar>positions st ! j\<bar> \<le> D \<and> \<bar>targetPositions st ! j\<bar> \<le> D
           \<longrightarrow> \<bar>positions (animate n rnd st) ! j
                  - (positions st ! j + 0.08 * (targetPositions st ! j - positions st ! j)
                       + (rnd j - 0.5) * 0.05)\<bar> \<le> D / 2 ^ 20)"
  proof (intro allI impI)
    fix j assume j: "j < n * 3"
    let ?p = "positions st ! j" and ?t = "targetPositions st ! j"
    let ?f = "fl64 0.08"
    from assms(3) have r: "0 \<le> rnd j" "rnd j < 1" by (simp_all add: unit_draws_def)
    have e: "positions (animate n rnd st) ! j = jitter_coord (rnd j) (lerp_coord ?f ?t ?p)"
      using animate_positions_nth [OF assms(1) j, of rnd] by (simp only: POS_LERP_FACTOR_def)
    have f: "0 < ?f" "?f \<le> 1" by (rule factor_range)+
    have err: "\<bar>positions (animate n rnd st) ! j
          - (?p + 0.08 * (?t - ?p) + (rnd j - 0.5) * 0.05)\<bar> \<le> D / 2 ^ 20"
      if "1 \<le> D \<and> D \<le> 2 ^ 100 \<and> \<bar>?p\<bar> \<le> D \<and> \<bar>?t\<bar> \<le> D" for D
    proof -
      from that have D: "1 \<le> D" "\<bar>?p\<bar> \<le> D" "\<bar>?t\<bar> \<le> D" by simp_all
      from coord_update_error [OF f r D]
      have 1: "\<bar>positions (animate n rnd st) ! j
          - (?p + (?t - ?p) * ?f + (rnd j - 0.5) * 0.05)\<bar> \<le> D / 2 ^ 21"
        by (simp only: e)
      from D have "\<bar>?t - ?p\<bar> \<le> 2 * D" by argo
      moreover have "\<bar>(?t - ?p) * (?f - 0.08)\<bar> = \<bar>?t - ?p\<bar> * \<bar>?f - 0.08\<bar>"
        by (rule abs_mult)
      moreover have "\<bar>?t - ?p\<bar> * \<bar>?f - 0.08\<bar> \<le> (2 * D) * (1 / 2 ^ 57)"
        using calculation(1) factor_error by (intro mult_mono) simp_all
      ultimately have 2: "\<bar>(?t - ?p) * ?f - 0.08 * (?t - ?p)\<bar> \<le> 2 * D / 2 ^ 57"
        by (simp add: right_diff_distrib mult.commute)
      from 1 2 D(1) show ?thesis by (rule slack_combine)
    qed
    from e jitter64_range [OF r] err
    show "positions (animate n rnd st) ! j =
          fround (fl64 (fround (fl64 (?p + fl64 (fl64 (?t - ?p) * fl64 0.08)))
                   + fl64 (fl64 (rnd j - 0.5) * fl64 0.05))) \<and>
        - fl64 0.025 \<le> fl64 (fl64 (rnd j - 0.5) * fl64 0.05) \<and>
        fl64 (fl64 (rnd j - 0.5) * fl64 0.05) \<le> fl64 0.025 \<and>
        (\<forall>D. 1 \<le> D \<and> D \<le> 2 ^ 100 \<and> \<bar>?p\<bar> \<le> D \<and> \<bar>?t\<bar> \<le> D
           \<longrightarrow> \<bar>positions (animate n rnd st) ! j
                  - (?p + 0.08 * (?t - ?p) + (rnd j - 0.5) * 0.05)\<bar> \<le> D / 2 ^ 20)"
      by (simp only: jitter_coord_def lerp_coord_def jitter64_def) blast
  qed
  have sc: "px (scale (animate n rnd st)) = px (scale st) + 0.1 * (groupScale st - px (scale st))"
    "py (scale (animate n rnd st)) = py (scale st) + 0.1 * (groupScale st - py (scale st))"
    "pz (scale (animate n rnd st)) = pz (scale st) + 0.1 * (groupScale st - pz (scale st))"
    by (simp_all add: animate_fields vector3_lerp_def)
  have mono: "0 \<le> rotationSpeed st \<and> fl64 (rotation_z st) = rotation_z st
        \<and> fl64 (rotation_y st) = rotation_y st \<longrightarrow>
        rotation_z st \<le> rotation_z (animate n rnd st) \<and>
        rotation_y st \<le> rotation_y (animate n rnd st)"
  proof (intro impI, elim conjE)
    assume s: "0 \<le> rotationSpeed st" and z: "fl64 (rotation_z st) = rotation_z st"
      and y: "fl64 (rotation_y st) = rotation_y st"
    from s have "0 \<le> rotationSpeed st * 0.5" by simp
    then have "0 \<le> fl64 (rotationSpeed st * 0.5)" unfolding fl64_def by (rule fl_nonneg)
    from fl64_ge_self [OF z s] fl64_ge_self [OF y this]
    show "rotation_z st \<le> rotation_z (animate n rnd st) \<and>
        rotation_y st \<le> rotation_y (animate n rnd st)"
      by (simp only: animate_fields)
  qed
  show ?thesis
    by (intro conjI col len pos sc mono animate_fields animate_frame)
qed

lemma coord_half:
  "fround (fl64 (fround (fl64 (1 + fl64 (fl64 (4 - 1) * fl64 0.08))) + fl64 (fl64 (1 / 2 - 0.5) * fl64 0.05))) = 5200937 / 2 ^ 22"
proof -
  have a1: "fl64 (4 - 1) = 3"
    using fl64_evalI [of "1" "4 - 1" "6755399441055744"] by simp
  have a2: "fl64 (3 * (5764607523034235 / 2 ^ 56)) = 1080863910568919 / 2 ^ 52"
    using fl64_evalI_tie [of "- 3" "3 * (5764607523034235 / 2 ^ 56)" "8646911284551352"] by simp
  have a3: "fl64 (1 + 1080863910568919 / 2 ^ 52) = 5584463537939415 / 2 ^ 52"
    using fl64_evalI [of "0" "1 + 1080863910568919 / 2 ^ 52" "5584463537939415"] by simp
  have a4: "fround (5584463537939415 / 2 ^ 52) = 5200937 / 2 ^ 22"
    using fround_evalI [of "0" "5584463537939415 / 2 ^ 52" "10401874"] by simp
  have a5: "fl64 (1 / 2 - 0.5) = 0"
    by (simp add: fl64_0)
  have a6: "fl64 (0 * (3602879701896397 / 2 ^ 56)) = 0"
    by (simp add: fl64_0)
  have a7: "fl64 (5200937 / 2 ^ 22 + 0) = 5200937 / 2 ^ 22"
    using fl64_evalI [of "0" "5200937 / 2 ^ 22 + 0" "5584463580889088"] by simp
  have a8: "fround (5200937 / 2 ^ 22) = 5200937 / 2 ^ 22"
    using fround_evalI [of "0" "5200937 / 2 ^ 22" "10401874"] by simp
  show ?thesis
    by (simp only: program_constants a1 a2 a3 a4 a5 a6 a7 a8)
qed

lemma coord_three_quarters:
  "fround (fl64 (fround (fl64 (1 + fl64 (fl64 (4 - 1) * fl64 0.08))) + fl64 (fl64 (3 / 4 - 0.5) * fl64 0.05))) = 2626683 / 2 ^ 21"
proof -
  have b1: "fl64 (4 - 1) = 3"
    using fl64_evalI [of "1" "4 - 1" "6755399441055744"] by simp
  have b2: "fl64 (3 * (5764607523034235 / 2 ^ 56)) = 1080863910568919 / 2 ^ 52"
    using fl64_evalI_tie [of "- 3" "3 * (5764607523034235 / 2 ^ 56)" "8646911284551352"] by simp
  have b3: "fl64 (1 + 1080863910568919 / 2 ^ 52) = 5584463537939415 / 2 ^ 52"
    using fl64_evalI [of "0" "1 + 1080863910568919 / 2 ^ 52" "5584463537939415"] by simp
  have b4: "fround (5584463537939415 / 2 ^ 52) = 5200937 / 2 ^ 22"
    using fround_evalI [of "0" "5584463537939415 / 2 ^ 52" "10401874"] by simp
  have b5: "fl64 (3 / 4 - 0.5) = 1 / 2 ^ 2"
    using fl64_evalI [of "- 2" "3 / 4 - 0.5" "4503599627370496"] by simp
  have b6: "fl64 (1 / 2 ^ 2 * (3602879701896397 / 2 ^ 56)) = 3602879701896397 / 2 ^ 58"
    using fl64_evalI [of "- 7" "1 / 2 ^ 2 * (3602879701896397 / 2 ^ 56)" "7205759403792794"] by simp
  have b7: "fl64 (5200937 / 2 ^ 22 + 3602879701896397 / 2 ^ 58) = 5640758576231219 / 2 ^ 52"
    using fl64_evalI [of "0" "5200937 / 2 ^ 22 + 3602879701896397 / 2 ^ 58" "5640758576231219"] by simp
  have b8: "fround (5640758576231219 / 2 ^ 52) = 2626683 / 2 ^ 21"
    using fround_evalI [of "0" "5640758576231219 / 2 ^ 52" "10506732"] by simp
  show ?thesis
    by (simp only: program_constants b1 b2 b3 b4 b5 b6 b7 b8)
qed



lemma fl64_speed: "fl64 (0 + 0.15) = 5404319552844595 / 2 ^ 55"
  using fl64_evalI [of "- 3" "0 + 0.15" "5404319552844595"] by simp

lemma moving_state_fits:
  "length (positions moving_state) = 1 * 3" "length (targetPositions moving_state) = 1 * 3"
  by (simp_all add: moving_state_def)

lemma moving_state_simps:
  "positions moving_state ! 0 = 1" "targetPositions moving_state ! 0 = 4"
  "rotation_z moving_state = 0" "rotationSpeed moving_state = 0.15"
  by (simp_all add: moving_state_def)

lemma constant_draws: "0 \<le> c \<Longrightarrow> c < 1 \<Longrightarrow> unit_draws (\<lambda>k. c)"
  by (simp add: unit_draws_def)

theorem animate_tick_rounded_witness:
  "length (positions moving_state) = 1 * 3 \<and> length (targetPositions moving_state) = 1 * 3 \<and>
   unit_draws (\<lambda>k. 3 / 4) \<and> (0::nat) < 1 * 3 \<and>
   positions (animate 1 (\<lambda>k. 3 / 4) moving_state) ! 0 = 2626683 / 2 ^ 21 \<and>
   (1::real) \<le> 4 \<and> (4::real) \<le> 2 ^ 100 \<and>
   \<bar>positions moving_state ! 0\<bar> \<le> 4 \<and> \<bar>targetPositions moving_state ! 0\<bar> \<le> 4 \<and>
   \<bar>positions (animate 1 (\<lambda>k. 3 / 4) moving_state) ! 0
      - (positions moving_state ! 0
          + 0.08 * (targetPositions moving_state ! 0 - positions moving_state ! 0)
          + (3 / 4 - 0.5) * 0.05)\<bar> \<le> 4 / 2 ^ 20 \<and>
   cr (currentColor (animate 1 (\<lambda>k. 3 / 4) moving_state)) = 0.95 \<and>
   px (scale (animate 1 (\<lambda>k. 3 / 4) moving_state)) = 0.94 \<and>
   0 \<le> rotationSpeed moving_state \<and>
   fl64 (rotation_z moving_state) = rotation_z moving_state \<and>
   fl64 (rotation_y moving_state) = rotation_y moving_state \<and>
   rotation_z moving_state \<le> rotation_z (animate 1 (\<lambda>k. 3 / 4) moving_state) \<and>
   rotation_y moving_state \<le> rotation_y (animate 1 (\<lambda>k. 3 / 4) moving_state) \<and>
   rotation_z (animate 1 (\<lambda>k. 3 / 4) moving_state) = 5404319552844595 / 2 ^ 55"
proof -
  have u: "unit_draws (\<lambda>k. 3 / 4 :: real)" by (rule constant_draws) simp_all
  note T = animate_tick_rounded [OF moving_state_fits u]
  have j: "(0::nat) < 1 * 3" by simp
  note J = T [THEN conjunct2, THEN conjunct2, THEN conjunct2, THEN conjunct2, THEN conjunct2,
      THEN conjunct1, THEN spec [where x = 0], THEN mp, OF j]
  have P: "positions (animate 1 (\<lambda>k. 3 / 4) moving_state) ! 0 = 2626683 / 2 ^ 21"
    using J [THEN conjunct1] by (simp only: moving_state_simps coord_three_quarters)
  have d: "(1::real) \<le> 4 \<and> (4::real) \<le> 2 ^ 100 \<and>
     \<bar>positions moving_state ! 0\<bar> \<le> 4 \<and> \<bar>targetPositions moving_state ! 0\<bar> \<le> 4"
    by (simp add: moving_state_simps)
  have E: "\<bar>positions (animate 1 (\<lambda>k. 3 / 4) moving_state) ! 0
      - (positions moving_state ! 0
          + 0.08 * (targetPositions moving_state ! 0 - positions moving_state ! 0)
          + (3 / 4 - 0.5) * 0.05)\<bar> \<le> 4 / 2 ^ 20"
    using J [THEN conjunct2, THEN conjunct2, THEN conjunct2, THEN spec [where x = 4]] d
    by (rule mp)
  have C: "cr (currentColor (animate 1 (\<lambda>k. 3 / 4) moving_state)) = 0.95"
    using T [THEN conjunct1] by (simp add: moving_state_def)
  have S: "px (scale (animate 1 (\<lambda>k. 3 / 4) moving_state)) = 0.94"
    using T [THEN conjunct2, THEN conjunct2, THEN conjunct2, THEN conjunct2, THEN conjunct2,
      THEN conjunct2, THEN conjunct1] by (simp add: moving_state_def)
  note T10 = T [THEN conjunct2, THEN conjunct2, THEN conjunct2, THEN conjunct2, THEN conjunct2,
      THEN conjunct2, THEN conjunct2, THEN conjunct2, THEN conjunct2]
  have Z: "rotation_z (animate 1 (\<lambda>k. 3 / 4) moving_state) = 5404319552844595 / 2 ^ 55"
    using T10 [THEN conjunct1] by (simp only: moving_state_simps fl64_speed)
  have m: "0 \<le> rotationSpeed moving_state \<and>
      fl64 (rotation_z moving_state) = rotation_z moving_state \<and>
      fl64 (rotation_y moving_state) = rotation_y moving_state"
    by (simp add: moving_state_def fl64_0)
  have M: "rotation_z moving_state \<le> rotation_z (animate 1 (\<lambda>k. 3 / 4) moving_state) \<and>
      rotation_y moving_state \<le> rotation_y (animate 1 (\<lambda>k. 3 / 4) moving_state)"
    using T10 [THEN conjunct2, THEN conjunct2, THEN conjunct1] m by (rule mp)
  from moving_state_fits u j P d E C S m M Z show ?thesis
    by (intro conjI) (elim conjE, assumption)+
qed

text \<open>The claim as written moves a coordinate by exactly 8% of its gap and then adds the
  jitter. On the scene \<open>moving_state\<close> with every draw 0.5, so that the jitter is zero,
  the coordinate 1 with target 4 is stored as \<open>5200937 / 2 ^ 22\<close>, the binary32 value next
  to 1.24.\<close>

theorem stored_coordinate_counterexample:
  "positions (animate 1 (\<lambda>k. 1 / 2) moving_state) ! 0 = 5200937 / 2 ^ 22 \<and>
   positions moving_state ! 0 = 1 \<and> targetPositions moving_state ! 0 = 4 \<and>
   5200937 / 2 ^ 22 \<noteq> (1 + 0.08 * (4 - 1) + (1 / 2 - 0.5) * 0.05 :: real)"
proof -
  have "positions (animate 1 (\<lambda>k. 1 / 2) moving_state) ! 0 =
     jitter_coord (1 / 2) (lerp_coord (fl64 0.08) (targetPositions moving_state ! 0) (positions moving_state ! 0))"
    using animate_positions_nth [OF moving_state_fits(1), of 0 "\<lambda>k. 1 / 2"]
    by (simp add: POS_LERP_FACTOR_def)
  then have "positions (animate 1 (\<lambda>k. 1 / 2) moving_state) ! 0 = 5200937 / 2 ^ 22"
    by (simp only: moving_state_simps jitter_coord_def lerp_coord_def jitter64_def coord_half)
  then show ?thesis by (simp add: moving_state_simps)
qed

section \<open>Shape generation: proofs\<close>

declare generate_from.simps [simp del]

lemma generate_from_done: "\<not> i < n \<Longrightarrow> generate_from fn n i k arr = (arr, k)"
  by (simp add: generate_from.simps)

lemma generate_from_step:
  assumes "i < n"
  shows "generate_from fn n i k arr =
     generate_from fn n (Suc i) (snd (fn i k))
       (arr [i * 3 := fround (px (fst (fn i k))), i * 3 + 1 := fround (py (fst (fn i k))),
             i * 3 + 2 := fround (pz (fst (fn i k)))])"
  using assms by (subst generate_from.simps) (simp split: prod.split)

lemma generate_from_length: "length (fst (generate_from fn n i k arr)) = length arr"
proof (induction "n - i" arbitrary: i k arr)
  case 0
  then show ?case by (simp add: generate_from_done)
next
  case (Suc d)
  then have "i < n" and "d = n - Suc i" by simp_all
  then show ?case
    using Suc.hyps(1) [of "Suc i"] by (simp add: generate_from_step)
qed

lemma generate_from_untouched:
  "j < i * 3 \<Longrightarrow> fst (generate_from fn n i k arr) ! j = arr ! j"
proof (induction "n - i" arbitrary: i k arr)
  case 0
  then show ?case by (simp add: generate_from_done)
next
  case (Suc d)
  then have i: "i < n" and d: "d = n - Suc i" by simp_all
  from Suc.prems have "j < Suc i * 3" by simp
  from Suc.hyps(1) [OF d this] Suc.prems show ?case
    by (simp add: generate_from_step [OF i])
qed

lemma generate_from_particle:
  assumes "\<And>i k. snd (fn i k) = k + c" and "length arr = n * 3" and "i0 \<le> i" and "i < n"
  shows "fst (generate_from fn n i0 k arr) ! (i * 3)
           = fround (px (fst (fn i (k + c * (i - i0))))) \<and>
         fst (generate_from fn n i0 k arr) ! (i * 3 + 1)
           = fround (py (fst (fn i (k + c * (i - i0))))) \<and>
         fst (generate_from fn n i0 k arr) ! (i * 3 + 2)
           = fround (pz (fst (fn i (k + c * (i - i0)))))"
  using assms(2-)
proof (induction "n - i0" arbitrary: i0 k arr)
  case 0
  then show ?case by simp
next
  case (Suc d)
  then have i0: "i0 < n" and d: "d = n - Suc i0" by simp_all
  let ?arr = "arr [i0 * 3 := fround (px (fst (fn i0 k))),
             i0 * 3 + 1 := fround (py (fst (fn i0 k))),
             i0 * 3 + 2 := fround (pz (fst (fn i0 k)))]"
  have len: "length ?arr = n * 3" using Suc.prems by simp
  have step: "generate_from fn n i0 k arr = generate_from fn n (Suc i0) (k + c) ?arr"
    by (simp add: generate_from_step [OF i0] assms(1))
  show ?case
  proof (cases "i = i0")
    case True
    have r: "i0 * 3 + 2 < length arr" using i0 Suc.prems by simp
    have "i0 * 3 < Suc i0 * 3" "i0 * 3 + 1 < Suc i0 * 3" "i0 * 3 + 2 < Suc i0 * 3" by simp_all
    then show ?thesis
      using r unfolding step True by (simp add: generate_from_untouched)
  next
    case False
    with Suc.prems have le: "Suc i0 \<le> i" by simp
    then have "i - i0 = Suc (i - Suc i0)" by simp
    then have "k + c + c * (i - Suc i0) = k + c * (i - i0)"
      by (simp only: mult_Suc_right add.assoc)
    with Suc.hyps(1) [OF d len le Suc.prems(3), of "k + c"] show ?thesis
      unfolding step by simp
  qed
qed

lemma generate_length: "length (fst (generate n fn k)) = n * 3"
  by (simp add: generate_def generate_from_length f32_new_def)

lemma generate_particle:
  assumes "\<And>i k. snd (fn i k) = k + c" and "i < n"
  shows "fst (generate n fn k) ! (i * 3) = fround (px (fst (fn i (k + c * i)))) \<and>
         fst (generate n fn k) ! (i * 3 + 1) = fround (py (fst (fn i (k + c * i)))) \<and>
         fst (generate n fn k) ! (i * 3 + 2) = fround (pz (fst (fn i (k + c * i))))"
  using generate_from_particle [of fn c "f32_new (n * 3)" n 0 i k] assms
  by (simp add: generate_def f32_new_def)

lemma generate_zero: "generate 0 fn k = ([], k)"
  by (simp add: generate_def f32_new_def generate_from_done)

lemma shapes_generated:
  obtains k1 k2 k3 k4 where
    "shapes ml rnd n HEART = fst (generate n (heart ml rnd n) 0)"
    "shapes ml rnd n FLOWER = fst (generate n (flower ml rnd n) k1)"
    "shapes ml rnd n PORTAL = fst (generate n (portal ml rnd n) k2)"
    "shapes ml rnd n HEXAGRAM = fst (generate n (hexagram ml rnd n) k3)"
    "shapes ml rnd n TREE = fst (generate n (tree ml rnd n) k4)"
proof -
  define k1 where "k1 = snd (generate n (heart ml rnd n) 0)"
  define k2 where "k2 = snd (generate n (flower ml rnd n) k1)"
  define k3 where "k3 = snd (generate n (portal ml rnd n) k2)"
  define k4 where "k4 = snd (generate n (hexagram ml rnd n) k3)"
  show thesis
    by (rule that [of k1 k2 k3 k4])
      (simp_all add: shapes_def case_prod_beta k1_def k2_def k3_def k4_def)
qed

lemma shapes_length: "length (shapes ml rnd n s) = n * 3"
proof -
  obtain k1 k2 k3 k4 where
    "shapes ml rnd n HEART = fst (generate n (heart ml rnd n) 0)"
    "shapes ml rnd n FLOWER = fst (generate n (flower ml rnd n) k1)"
    "shapes ml rnd n PORTAL = fst (generate n (portal ml rnd n) k2)"
    "shapes ml rnd n HEXAGRAM = fst (generate n (hexagram ml rnd n) k3)"
    "shapes ml rnd n TREE = fst (generate n (tree ml rnd n) k4)"
    by (rule shapes_generated)
  then show ?thesis
    by (cases s) (simp_all add: generate_length)
qed

lemma unit_drawsD: "unit_draws rnd \<Longrightarrow> 0 \<le> rnd k \<and> rnd k < 1"
  by (simp add: unit_draws_def)

lemma mod3_cases: "(i::nat) mod 3 = 0 \<or> i mod 3 = 1 \<or> i mod 3 = 2"
  by arith

lemma portal_draws: "snd (portal ml rnd n i k) = k + 4"
  using mod3_cases [of i] by (auto simp add: portal_def Let_def)

lemma draws_per_particle:
  "snd (heart ml rnd n i k) = k + 2" "snd (flower ml rnd n i k) = k + 1"
  "snd (hexagram ml rnd n i k) = k + 1" "snd (tree ml rnd n i k) = k + 0"
  by (simp_all add: heart_def flower_def hexagram_def tree_def Let_def)

text \<open>The stored point of each shape function is the documented formula, with the random
  components that the function draws.\<close>

lemma heart_point:
  "(fround (px (fst (heart ml rnd n i k))), fround (py (fst (heart ml rnd n i k))),
    fround (pz (fst (heart ml rnd n i k)))) =
     heart_spec ml n i (fl64 (0.5 + fl64 (rnd k * fl64 0.1)))
       (fround (fl64 (fl64 (rnd (k + 1) - 0.5) * 4)))"
  by (simp add: heart_def heart_spec_def theta_spec_def Let_def)

lemma flower_point:
  "(fround (px (fst (flower ml rnd n i k))), fround (py (fst (flower ml rnd n i k))),
    fround (pz (fst (flower ml rnd n i k)))) =
     flower_spec ml n i (fround (fl64 (fl64 (rnd k - 0.5) * 3)))"
  by (simp add: flower_def flower_spec_def theta_spec_def Let_def)

lemma hexagram_point:
  "(fround (px (fst (hexagram ml rnd n i k))), fround (py (fst (hexagram ml rnd n i k))),
    fround (pz (fst (hexagram ml rnd n i k)))) =
     hexagram_spec ml n i (fround (fl64 (fl64 (rnd k - 0.5) * 2)))"
  by (simp add: hexagram_def hexagram_spec_def theta_spec_def Let_def)

lemma tree_point:
  "(fround (px (fst (tree ml rnd n i k))), fround (py (fst (tree ml rnd n i k))),
    fround (pz (fst (tree ml rnd n i k)))) = tree_spec ml n i"
  by (simp add: tree_def tree_spec_def Let_def)

lemma portal_point:
  "(fround (px (fst (portal ml rnd n i k))), fround (py (fst (portal ml rnd n i k))),
    fround (pz (fst (portal ml rnd n i k)))) =
     portal_spec ml
        (if i mod 3 = 0 then fl64 (10 + fl64 (rnd (k + 1) * 1.5))
         else if i mod 3 = 1 then fl64 (8 + fl64 (rnd (k + 1) * 1.0))
         else fl64 (rnd (k + 1) * 9))
        (fl64 (fl64 (rnd (k + 2) - 0.5) * 0.5)) (fl64 (fl64 (rnd k * Math_PI) * 2))
        (fround (fl64 (fl64 (rnd (k + 3) - 0.5) * 0.5)))"
proof -
  have k3: "rnd (Suc (Suc (Suc k))) = rnd (k + 3)" by (simp add: numeral_3_eq_3)
  consider "i mod 3 = 0" | "i mod 3 = 1" | "i mod 3 = 2"
    by atomize_elim arith
  then show ?thesis
  proof cases
    case 1
    then show ?thesis by (simp add: portal_def portal_spec_def Let_def k3)
  next
    case 2
    then show ?thesis by (simp add: portal_def portal_spec_def Let_def k3)
  next
    case 3
    then show ?thesis by (simp add: portal_def portal_spec_def Let_def k3)
  qed
qed

lemma particle_at_generate:
  assumes "\<And>i k. snd (fn i k) = k + c" and "i < n"
    and "(fround (px (fst (fn i (k + c * i)))), fround (py (fst (fn i (k + c * i)))),
          fround (pz (fst (fn i (k + c * i))))) = q"
  shows "particle_at (fst (generate n fn k)) i = q"
  using generate_particle [of fn c i n k, OF assms(1,2)] assms(3)
  by (simp add: particle_at_def)

text \<open>Ranges of the rounded random components.\<close>

lemma fl64_minus: "fl64 (- x) = - fl64 x"
  by (simp add: fl64_def fl_minus)

lemma fround_minus: "fround (- x) = - fround x"
  by (simp add: fround_def fl_minus)

lemma fl64_nonneg: "0 \<le> x \<Longrightarrow> 0 \<le> fl64 x"
  unfolding fl64_def by (rule fl_nonneg)

lemma fl64_between:
  assumes "fl64 a = a" and "fl64 b = b" and "a \<le> x" and "x \<le> b"
  shows "a \<le> fl64 x \<and> fl64 x \<le> b"
  using fl64_mono [OF assms(3)] fl64_mono [OF assms(4)] by (simp add: assms(1,2))

lemma fround_between:
  assumes "fround a = a" and "fround b = b" and "a \<le> x" and "x \<le> b"
  shows "a \<le> fround x \<and> fround x \<le> b"
  using fround_mono [OF assms(3)] fround_mono [OF assms(4)] by (simp add: assms(1,2))

lemma fl64_dyadic:
  "fl64 (1 / 2) = 1 / 2" "fl64 (1 / 4) = 1 / 4" "fl64 (3 / 2) = 3 / 2" "fl64 2 = 2"
  "fl64 8 = 8" "fl64 9 = 9" "fl64 10 = 10" "fl64 (23 / 2) = 23 / 2"
proof -
  show "fl64 (1 / 2) = 1 / 2" by (rule fl64_repr [of _ 1 "- 1"]) simp_all
  show "fl64 (1 / 4) = 1 / 4" by (rule fl64_repr [of _ 1 "- 2"]) simp_all
  show "fl64 (3 / 2) = 3 / 2" by (rule fl64_repr [of _ 3 "- 1"]) simp_all
  show "fl64 2 = 2" by (rule fl64_repr [of _ 2 0]) simp_all
  show "fl64 8 = 8" by (rule fl64_repr [of _ 8 0]) simp_all
  show "fl64 9 = 9" by (rule fl64_repr [of _ 9 0]) simp_all
  show "fl64 10 = 10" by (rule fl64_repr [of _ 10 0]) simp_all
  show "fl64 (23 / 2) = 23 / 2" by (rule fl64_repr [of _ 23 "- 1"]) simp_all
qed

lemma fround_dyadic:
  "fround (1 / 4) = 1 / 4" "fround 1 = 1" "fround (3 / 2) = 3 / 2" "fround 2 = 2"
  "fround 8 = 8"
proof -
  show "fround (1 / 4) = 1 / 4" by (rule fround_repr [of _ 1 "- 2"]) simp_all
  show "fround 1 = 1" by (rule fround_repr [of _ 1 0]) simp_all
  show "fround (3 / 2) = 3 / 2" by (rule fround_repr [of _ 3 "- 1"]) simp_all
  show "fround 2 = 2" by (rule fround_repr [of _ 2 0]) simp_all
  show "fround 8 = 8" by (rule fround_repr [of _ 8 0]) simp_all
qed

lemma centred_draw:
  assumes "0 \<le> r" and "r < 1"
  shows "- (1 / 2) \<le> fl64 (r - 0.5) \<and> fl64 (r - 0.5) \<le> 1 / 2"
proof -
  from assms have "- (1 / 2) \<le> r - 0.5" "r - 0.5 \<le> 1 / 2" by simp_all
  moreover have "fl64 (- (1 / 2)) = - (1 / 2)" by (simp only: fl64_minus fl64_dyadic)
  ultimately show ?thesis using fl64_dyadic(1) by (intro fl64_between)
qed

lemma centred_scaled:
  assumes r: "0 \<le> r" "r < 1" and c: "0 \<le> c" and h: "fl64 h = h" "h = c / 2"
  shows "- h \<le> fl64 (fl64 (r - 0.5) * c) \<and> fl64 (fl64 (r - 0.5) * c) \<le> h"
proof -
  let ?a = "fl64 (r - 0.5)"
  from centred_draw [OF r] have a: "- (1 / 2) \<le> ?a" "?a \<le> 1 / 2" by simp_all
  from mult_right_mono [OF a(1) c] mult_right_mono [OF a(2) c]
  have "- h \<le> ?a * c" "?a * c \<le> h" by (simp_all add: h(2))
  moreover have "fl64 (- h) = - h" by (simp only: fl64_minus h(1))
  ultimately show ?thesis using h(1) by (intro fl64_between)
qed

lemma centred_stored:
  assumes r: "0 \<le> r" "r < 1" and c: "0 \<le> c" and h: "fl64 h = h" "fround h = h" "h = c / 2"
  shows "- h \<le> fround (fl64 (fl64 (r - 0.5) * c)) \<and> fround (fl64 (fl64 (r - 0.5) * c)) \<le> h"
proof -
  from centred_scaled [OF r c h(1,3)]
  have "- h \<le> fl64 (fl64 (r - 0.5) * c)" "fl64 (fl64 (r - 0.5) * c) \<le> h" by simp_all
  moreover have "fround (- h) = - h" by (simp only: fround_minus h(2))
  ultimately show ?thesis using h(2) by (intro fround_between)
qed

lemma scaled_draw:
  assumes r: "0 \<le> r" "r < 1" and c: "0 \<le> c" "fl64 c = c"
  shows "0 \<le> fl64 (r * c) \<and> fl64 (r * c) \<le> c"
proof -
  from r c(1) have "0 \<le> r * c" by simp
  moreover from r c(1) have "r * c \<le> 1 * c" by (intro mult_right_mono) simp_all
  then have "r * c \<le> c" by simp
  ultimately show ?thesis using fl64_0 c(2) by (intro fl64_between)
qed

lemma offset_scaled_draw:
  assumes r: "0 \<le> r" "r < 1" and c: "0 \<le> c" "fl64 c = c"
    and a: "fl64 a = a" and b: "fl64 b = b" "b = a + c"
  shows "a \<le> fl64 (a + fl64 (r * c)) \<and> fl64 (a + fl64 (r * c)) \<le> b"
proof -
  from scaled_draw [OF r c] have "a \<le> a + fl64 (r * c)" "a + fl64 (r * c) \<le> b"
    by (simp_all add: b(2))
  with a b(1) show ?thesis by (intro fl64_between)
qed

lemma heart_radius:
  assumes "0 \<le> r" and "r < 1"
  shows "0.5 \<le> fl64 (0.5 + fl64 (r * fl64 0.1)) \<and> fl64 (0.5 + fl64 (r * fl64 0.1)) < 0.6"
proof -
  have r1: "fl64 (0.1) = 3602879701896397 / 2 ^ 55"
    using fl64_evalI [of "- 4" "0.1" "7205759403792794"] by simp
  have r2: "fl64 (3602879701896397 / 2 ^ 55) = 3602879701896397 / 2 ^ 55"
    using fl64_evalI [of "- 4" "3602879701896397 / 2 ^ 55" "7205759403792794"] by simp
  have r3: "fl64 (0.5 + 3602879701896397 / 2 ^ 55) = 5404319552844595 / 2 ^ 53"
    using fl64_evalI [of "- 1" "0.5 + 3602879701896397 / 2 ^ 55" "5404319552844595"] by simp
  have h: "fl64 0.5 = 0.5" by (rule fl64_repr [of _ 1 "- 1"]) simp_all
  let ?c = "3602879701896397 / 2 ^ 55 :: real"
  let ?w = "fl64 (r * ?c)"
  have "0 \<le> ?w \<and> ?w \<le> ?c" using assms by (intro scaled_draw r2) simp_all
  then have w: "0.5 \<le> 0.5 + ?w" "0.5 + ?w \<le> 0.5 + ?c" by simp_all
  from fl64_mono [OF w(1)] fl64_mono [OF w(2)]
  have "0.5 \<le> fl64 (0.5 + ?w)" "fl64 (0.5 + ?w) \<le> 5404319552844595 / 2 ^ 53"
    by (simp_all only: h r3)
  moreover have "5404319552844595 / 2 ^ 53 < (0.6 :: real)" by simp
  ultimately show ?thesis unfolding r1 by simp
qed

lemma portal_angle:
  assumes "0 \<le> r" and "r < 1"
  shows "0 \<le> fl64 (fl64 (r * Math_PI) * 2) \<and> fl64 (fl64 (r * Math_PI) * 2) \<le> 2 * Math_PI"
proof -
  have p1: "fl64 (884279719003555 / 2 ^ 48) = 884279719003555 / 2 ^ 48"
    using fl64_evalI [of "1" "884279719003555 / 2 ^ 48" "7074237752028440"] by simp
  have p2: "fl64 (884279719003555 / 2 ^ 48 * 2) = 884279719003555 / 2 ^ 47"
    using fl64_evalI [of "2" "884279719003555 / 2 ^ 48 * 2" "7074237752028440"] by simp
  let ?c = "884279719003555 / 2 ^ 48 :: real"
  let ?w = "fl64 (r * ?c)"
  have "0 \<le> ?w \<and> ?w \<le> ?c" using assms by (intro scaled_draw p1) simp_all
  then have w: "0 \<le> ?w * 2" "?w * 2 \<le> ?c * 2" by simp_all
  from fl64_mono [OF w(1)] fl64_mono [OF w(2)]
  have "0 \<le> fl64 (?w * 2)" "fl64 (?w * 2) \<le> 884279719003555 / 2 ^ 47"
    by (simp_all only: mult_zero_left fl64_0 p2)
  then show ?thesis unfolding Math_PI_def by simp
qed

lemma portal_radius:
  assumes "0 \<le> r" and "r < 1"
  shows "portal_radius_spec i
     (if i mod 3 = 0 then fl64 (10 + fl64 (r * 1.5))
      else if i mod 3 = 1 then fl64 (8 + fl64 (r * 1.0))
      else fl64 (r * 9))"
proof -
  have a: "10 \<le> fl64 (10 + fl64 (r * (3 / 2))) \<and> fl64 (10 + fl64 (r * (3 / 2))) \<le> 23 / 2"
    using assms by (intro offset_scaled_draw fl64_dyadic) simp_all
  have b: "8 \<le> fl64 (8 + fl64 (r * 1)) \<and> fl64 (8 + fl64 (r * 1)) \<le> 9"
    using assms by (intro offset_scaled_draw fl64_dyadic fl64_1) simp_all
  have c: "0 \<le> fl64 (r * 9) \<and> fl64 (r * 9) \<le> 9"
    using assms by (intro scaled_draw fl64_dyadic) simp_all
  from a b c show ?thesis by (simp add: portal_radius_spec_def)
qed

lemma heart_conforms:
  assumes "unit_draws rnd" and "i < n"
  shows "\<exists>r z. 0.5 \<le> r \<and> r < 0.6 \<and> - 2 \<le> z \<and> z \<le> 2 \<and>
     particle_at (fst (generate n (heart ml rnd n) k)) i = heart_spec ml n i r z"
proof -
  let ?r = "fl64 (0.5 + fl64 (rnd (k + 2 * i) * fl64 0.1))"
  let ?z = "fround (fl64 (fl64 (rnd (k + 2 * i + 1) - 0.5) * 4))"
  from unit_drawsD [OF assms(1), of "k + 2 * i"] have "0.5 \<le> ?r \<and> ?r < 0.6"
    by (intro heart_radius) simp_all
  moreover from unit_drawsD [OF assms(1), of "k + 2 * i + 1"] have "- 2 \<le> ?z \<and> ?z \<le> 2"
    by (intro centred_stored fl64_dyadic fround_dyadic) simp_all
  moreover have "particle_at (fst (generate n (heart ml rnd n) k)) i = heart_spec ml n i ?r ?z"
    by (rule particle_at_generate [where c = 2]) (simp_all only: draws_per_particle assms heart_point)
  ultimately show ?thesis by blast
qed

lemma flower_conforms:
  assumes "unit_draws rnd" and "i < n"
  shows "\<exists>z. - 1.5 \<le> z \<and> z \<le> 1.5 \<and>
     particle_at (fst (generate n (flower ml rnd n) k)) i = flower_spec ml n i z"
proof -
  let ?z = "fround (fl64 (fl64 (rnd (k + 1 * i) - 0.5) * 3))"
  from unit_drawsD [OF assms(1), of "k + 1 * i"] have "- (3 / 2) \<le> ?z \<and> ?z \<le> 3 / 2"
    by (intro centred_stored fl64_dyadic fround_dyadic) simp_all
  then have "- 1.5 \<le> ?z \<and> ?z \<le> 1.5" by simp
  moreover have "particle_at (fst (generate n (flower ml rnd n) k)) i = flower_spec ml n i ?z"
    by (rule particle_at_generate [where c = 1]) (simp_all only: draws_per_particle assms flower_point)
  ultimately show ?thesis by blast
qed

lemma hexagram_conforms:
  assumes "unit_draws rnd" and "i < n"
  shows "\<exists>z. - 1 \<le> z \<and> z \<le> 1 \<and>
     particle_at (fst (generate n (hexagram ml rnd n) k)) i = hexagram_spec ml n i z"
proof -
  let ?z = "fround (fl64 (fl64 (rnd (k + 1 * i) - 0.5) * 2))"
  from unit_drawsD [OF assms(1), of "k + 1 * i"] have "- 1 \<le> ?z \<and> ?z \<le> 1"
    by (intro centred_stored fl64_1 fround_dyadic) simp_all
  moreover have "particle_at (fst (generate n (hexagram ml rnd n) k)) i = hexagram_spec ml n i ?z"
    by (rule particle_at_generate [where c = 1]) (simp_all only: draws_per_particle assms hexagram_point)
  ultimately show ?thesis by blast
qed

lemma tree_conforms:
  assumes "i < n"
  shows "particle_at (fst (generate n (tree ml rnd n) k)) i = tree_spec ml n i"
  by (rule particle_at_generate [where c = 0]) (simp_all only: draws_per_particle assms tree_point)

lemma tree_height:
  assumes "i < 4000"
  shows "- 10 < fst (snd (tree_spec ml 4000 i)) \<and> fst (snd (tree_spec ml 4000 i)) \<le> 8"
proof -
  have t1: "fl64 (3999 / 4000) = 9004947454927307 / 2 ^ 53"
    using fl64_evalI [of "- 1" "3999 / 4000" "9004947454927307"] by simp
  have t2: "fl64 (9004947454927307 / 2 ^ 53 * 18) = 2532641471698305 / 2 ^ 47"
    using fl64_evalI [of "4" "9004947454927307 / 2 ^ 53 * 18" "5065282943396610"] by simp
  have t3: "fl64 (8 - 2532641471698305 / 2 ^ 47) = - (1406741564855681 / 2 ^ 47)"
    using fl64_evalI [of "3" "8 - 2532641471698305 / 2 ^ 47" "- 5626966259422724"] by simp
  have t4: "fround (- (1406741564855681 / 2 ^ 47)) = - (10481041 / 2 ^ 20)"
    using fround_evalI [of "3" "- (1406741564855681 / 2 ^ 47)" "- 10481041"] by simp
  define pct where "pct = fl64 (real i / 4000)"
  define y where "y = fl64 (8 - fl64 (pct * 18))"
  from assms have "real i \<le> 3999" by simp
  then have "real i / 4000 \<le> 3999 / 4000" by simp
  from fl64_mono [OF this] have p: "pct \<le> 9004947454927307 / 2 ^ 53"
    by (simp only: pct_def t1)
  have p0: "0 \<le> pct" unfolding pct_def by (rule fl64_nonneg) simp
  from p have "pct * 18 \<le> 9004947454927307 / 2 ^ 53 * 18" by simp
  from fl64_mono [OF this] have q: "fl64 (pct * 18) \<le> 2532641471698305 / 2 ^ 47"
    by (simp only: t2)
  from p0 have q0: "0 \<le> fl64 (pct * 18)" by (intro fl64_nonneg) simp
  from q have "8 - 2532641471698305 / 2 ^ 47 \<le> 8 - fl64 (pct * 18)" by simp
  from fl64_mono [OF this] have "- (1406741564855681 / 2 ^ 47) \<le> y"
    by (simp only: y_def t3)
  from fround_mono [OF this] have lo: "- (10481041 / 2 ^ 20) \<le> fround y"
    by (simp only: t4)
  from q0 have "8 - fl64 (pct * 18) \<le> 8" by simp
  from fl64_mono [OF this] have "y \<le> 8" by (simp only: y_def fl64_dyadic)
  from fround_mono [OF this] have hi: "fround y \<le> 8" by (simp only: fround_dyadic)
  have "fst (snd (tree_spec ml 4000 i)) = fround y"
    by (simp add: tree_spec_def Let_def y_def pct_def)
  moreover have "- 10 < - (10481041 / 2 ^ 20 :: real)" by simp
  ultimately show ?thesis using lo hi by simp
qed

lemma portal_conforms:
  assumes "unit_draws rnd" and "i < n"
  shows "\<exists>radius noise angle z. portal_radius_spec i radius \<and>
     - 0.25 \<le> noise \<and> noise \<le> 0.25 \<and> 0 \<le> angle \<and> angle \<le> 2 * Math_PI \<and>
     - 0.25 \<le> z \<and> z \<le> 0.25 \<and>
     particle_at (fst (generate n (portal ml rnd n) k)) i = portal_spec ml radius noise angle z"
proof -
  let ?k = "k + 4 * i"
  let ?radius = "if i mod 3 = 0 then fl64 (10 + fl64 (rnd (?k + 1) * 1.5))
                 else if i mod 3 = 1 then fl64 (8 + fl64 (rnd (?k + 1) * 1.0))
                 else fl64 (rnd (?k + 1) * 9)"
  let ?noise = "fl64 (fl64 (rnd (?k + 2) - 0.5) * 0.5)"
  let ?angle = "fl64 (fl64 (rnd ?k * Math_PI) * 2)"
  let ?z = "fround (fl64 (fl64 (rnd (?k + 3) - 0.5) * 0.5))"
  from unit_drawsD [OF assms(1), of "?k + 1"] have "portal_radius_spec i ?radius"
    by (intro portal_radius) simp_all
  moreover from unit_drawsD [OF assms(1), of "?k + 2"]
  have "- (1 / 4) \<le> ?noise \<and> ?noise \<le> 1 / 4"
    by (intro centred_scaled fl64_dyadic) simp_all
  then have "- 0.25 \<le> ?noise \<and> ?noise \<le> 0.25" by simp
  moreover from unit_drawsD [OF assms(1), of "?k"]
  have "0 \<le> ?angle \<and> ?angle \<le> 2 * Math_PI" by (intro portal_angle) simp_all
  moreover from unit_drawsD [OF assms(1), of "?k + 3"]
  have "- (1 / 4) \<le> ?z \<and> ?z \<le> 1 / 4"
    by (intro centred_stored fl64_dyadic fround_dyadic) simp_all
  then have "- 0.25 \<le> ?z \<and> ?z \<le> 0.25" by simp
  moreover have "particle_at (fst (generate n (portal ml rnd n) k)) i =
      portal_spec ml ?radius ?noise ?angle ?z"
    by (rule particle_at_generate [where c = 4]) (simp_all only: portal_draws assms portal_point)
  ultimately show ?thesis by blast
qed

text \<open>
  Claim C6, as the code has it. Each of the five generated point sets holds exactly
  N = 4000 points, and every stored coordinate is the binary32 rounding of the documented
  formula evaluated in binary64 with the library's sine, cosine and power, whatever the
  draws: HEART is \<open>x = 16 sin\<^sup>3 t * r\<close>, \<open>y = (13 cos t - 5 cos 2t - 2 cos 3t - cos 4t) * r\<close>
  with \<open>r\<close> in \<open>[0.5, 0.6)\<close> and the stored \<open>z\<close> in \<open>[-2, 2]\<close>, where \<open>t = (i / N) * 2 pi\<close>;
  FLOWER is the rose curve of radius \<open>8 cos (5 t') + 3\<close> at \<open>t' = 12 t\<close> with the stored \<open>z\<close>
  in \<open>[-1.5, 1.5]\<close>; PORTAL has a ring radius in \<open>[10, 11.5]\<close>, \<open>[8, 9]\<close> or \<open>[0, 9]\<close> by
  \<open>i mod 3\<close>, a radial noise in \<open>[-0.25, 0.25]\<close>, an angle from 0 to twice \<open>Math.PI\<close> and
  the stored \<open>z\<close> in \<open>[-0.25, 0.25]\<close>; HEXAGRAM has radius \<open>9 (1.2 + 0.3 sin (6 t))\<close> and the
  stored \<open>z\<close> in \<open>[-1, 1]\<close>; TREE is the spiral cone with the stored \<open>y\<close>, from
  \<open>8 - 18 i / N\<close>, above -10 and at most 8. The upper ends of the intervals of the
  coordinates and of the ring radius are closed: rounding reaches them. Since this holds
  for every sequence of draws, a regenerated set has the same point count and bounds.
\<close>

theorem shapes_stored:
  assumes "unit_draws rnd" and "i < PARTICLE_COUNT"
  shows
    "PARTICLE_COUNT = 4000 \<and>
     (\<forall>s. length (shapes ml rnd PARTICLE_COUNT s) = 4000 * 3) \<and>
     (\<exists>r z. 0.5 \<le> r \<and> r < 0.6 \<and> - 2 \<le> z \<and> z \<le> 2 \<and>
        particle_at (shapes ml rnd PARTICLE_COUNT HEART) i = heart_spec ml PARTICLE_COUNT i r z) \<and>
     (\<exists>z. - 1.5 \<le> z \<and> z \<le> 1.5 \<and>
        particle_at (shapes ml rnd PARTICLE_COUNT FLOWER) i = flower_spec ml PARTICLE_COUNT i z) \<and>
     (\<exists>radius noise angle z. portal_radius_spec i radius \<and>
        - 0.25 \<le> noise \<and> noise \<le> 0.25 \<and> 0 \<le> angle \<and> angle \<le> 2 * Math_PI \<and>
        - 0.25 \<le> z \<and> z \<le> 0.25 \<and>
        particle_at (shapes ml rnd PARTICLE_COUNT PORTAL) i = portal_spec ml radius noise angle z) \<and>
     (\<exists>z. - 1 \<le> z \<and> z \<le> 1 \<and>
        particle_at (shapes ml rnd PARTICLE_COUNT HEXAGRAM) i = hexagram_spec ml PARTICLE_COUNT i z) \<and>
     particle_at (shapes ml rnd PARTICLE_COUNT TREE) i = tree_spec ml PARTICLE_COUNT i \<and>
     - 10 < fst (snd (tree_spec ml PARTICLE_COUNT i)) \<and>
     fst (snd (tree_spec ml PARTICLE_COUNT i)) \<le> 8"
proof -
  obtain k1 k2 k3 k4 where g:
    "shapes ml rnd PARTICLE_COUNT HEART = fst (generate PARTICLE_COUNT (heart ml rnd PARTICLE_COUNT) 0)"
    "shapes ml rnd PARTICLE_COUNT FLOWER = fst (generate PARTICLE_COUNT (flower ml rnd PARTICLE_COUNT) k1)"
    "shapes ml rnd PARTICLE_COUNT PORTAL = fst (generate PARTICLE_COUNT (portal ml rnd PARTICLE_COUNT) k2)"
    "shapes ml rnd PARTICLE_COUNT HEXAGRAM =
       fst (generate PARTICLE_COUNT (hexagram ml rnd PARTICLE_COUNT) k3)"
    "shapes ml rnd PARTICLE_COUNT TREE = fst (generate PARTICLE_COUNT (tree ml rnd PARTICLE_COUNT) k4)"
    by (rule shapes_generated)
  have count: "PARTICLE_COUNT = 4000" by (simp add: PARTICLE_COUNT_def)
  have len: "\<forall>s. length (shapes ml rnd PARTICLE_COUNT s) = 4000 * 3"
    by (simp only: shapes_length count) simp
  from assms(2) have "i < 4000" by (simp add: PARTICLE_COUNT_def)
  from tree_height [OF this, of ml]
  have th: "- 10 < fst (snd (tree_spec ml PARTICLE_COUNT i))"
    "fst (snd (tree_spec ml PARTICLE_COUNT i)) \<le> 8"
    by (simp_all only: count)
  show ?thesis
    unfolding g
    by (intro conjI count len [unfolded g] heart_conforms flower_conforms portal_conforms
        hexagram_conforms tree_conforms assms th)
qed

theorem shapes_stored_witness:
  "unit_draws (\<lambda>k. 1 / 2) \<and> 0 < PARTICLE_COUNT \<and>
   length (shapes test_mathlib (\<lambda>k. 1 / 2) PARTICLE_COUNT PORTAL) = 12000 \<and>
   (\<exists>r z. 0.5 \<le> r \<and> r < 0.6 \<and> - 2 \<le> z \<and> z \<le> 2 \<and>
      particle_at (shapes test_mathlib (\<lambda>k. 1 / 2) PARTICLE_COUNT HEART) 0 =
        heart_spec test_mathlib PARTICLE_COUNT 0 r z) \<and>
   particle_at (shapes test_mathlib (\<lambda>k. 1 / 2) PARTICLE_COUNT TREE) 0 = (0, 8, 0)"
proof -
  have a: "unit_draws (\<lambda>k. 1 / 2)" "0 < PARTICLE_COUNT"
    by (simp_all add: unit_draws_def PARTICLE_COUNT_def)
  have "tree_spec test_mathlib PARTICLE_COUNT 0 = (0, 8, 0)"
    by (simp add: tree_spec_def fl64_0 fround_0 fl64_dyadic fround_dyadic)
  with shapes_stored [OF a, of test_mathlib] a show ?thesis by simp
qed

lemma heart_depth_at_end:
  "fround (fl64 (fl64 (1 - 1 / 2 ^ 30 - 0.5) * 4)) = 2"
proof -
  have h1: "fl64 (1 - 1 / 2 ^ 30 - 0.5) = 536870911 / 2 ^ 30"
    using fl64_evalI [of "- 2" "1 - 1 / 2 ^ 30 - 0.5" "9007199237963776"] by simp
  have h2: "fl64 (536870911 / 2 ^ 30 * 4) = 536870911 / 2 ^ 28"
    using fl64_evalI [of "0" "536870911 / 2 ^ 30 * 4" "9007199237963776"] by simp
  have h3: "fround (536870911 / 2 ^ 28) = 2"
    using fround_evalI [of "0" "536870911 / 2 ^ 28" "16777216"] by simp
  show ?thesis by (simp only: h1 h2 h3)
qed

text \<open>The claim as written keeps the HEART \<open>z\<close> below 2. With every draw
  \<open>1 - 2 ^ -30\<close> the program computes \<open>z\<close> of particle 0 as \<open>2 - 2 ^ -28\<close>, and the buffer
  stores 2.\<close>

theorem stored_depth_counterexample:
  "unit_draws (\<lambda>k. 1 - 1 / 2 ^ 30) \<and> 0 < PARTICLE_COUNT \<and>
   ((1 - 1 / 2 ^ 30 - 0.5) * 4 :: real) < 2 \<and>
   snd (snd (particle_at (shapes test_mathlib (\<lambda>k. 1 - 1 / 2 ^ 30) PARTICLE_COUNT HEART) 0)) = 2"
proof -
  have a: "unit_draws (\<lambda>k. 1 - 1 / 2 ^ 30)" "0 < PARTICLE_COUNT"
    by (simp_all add: unit_draws_def PARTICLE_COUNT_def)
  obtain k1 k2 k3 k4 where g:
    "shapes test_mathlib (\<lambda>k. 1 - 1 / 2 ^ 30) PARTICLE_COUNT HEART =
       fst (generate PARTICLE_COUNT (heart test_mathlib (\<lambda>k. 1 - 1 / 2 ^ 30) PARTICLE_COUNT) 0)"
    by (rule shapes_generated)
  have "particle_at (shapes test_mathlib (\<lambda>k. 1 - 1 / 2 ^ 30) PARTICLE_COUNT HEART) 0 =
     heart_spec test_mathlib PARTICLE_COUNT 0 (fl64 (0.5 + fl64 ((1 - 1 / 2 ^ 30) * fl64 0.1)))
       (fround (fl64 (fl64 (1 - 1 / 2 ^ 30 - 0.5) * 4)))"
    unfolding g
    by (rule particle_at_generate [where c = 2])
      (simp_all only: draws_per_particle a heart_point mult_zero_right add_0)
  then have "snd (snd (particle_at
      (shapes test_mathlib (\<lambda>k. 1 - 1 / 2 ^ 30) PARTICLE_COUNT HEART) 0)) = 2"
    by (simp only: heart_depth_at_end heart_spec_def Let_def snd_conv)
  with a show ?thesis by simp
qed

text \<open>
  Claim C9. With a particle count of 0, \<open>generate\<close> returns an empty buffer without calling
  the shape function, so all five cached buffers are empty; mounting succeeds with empty
  position and target buffers; the particle loop returns the buffer it was given after no
  pass of its body and no draw, so a tick leaves the positions as they are; and a metrics
  update on the empty target buffer succeeds and leaves it empty.
\<close>

theorem zero_particles:
  "generate 0 fn k = ([], k) \<and>
   shapes ml rnd 0 s = [] \<and>
   mount c0 (shapes ml rnd 0) 0 =
     Inr \<lparr> positions = [], targetPositions = [], currentShape = HEART,
           rotationSpeed = 0.001, groupScale = 1.0,
           currentColor = c0, targetColor = c0, materialColor = c0,
           rotation_y = 0, rotation_z = 0, scale = \<lparr> px = 1, py = 1, pz = 1 \<rparr> \<rparr> \<and>
   particle_loop f rnd' target 0 0 0 p = (p, 0) \<and>
   positions (animate 0 rnd' st) = positions st \<and>
   (\<exists>st'. handleMetrics setHSL (shapes ml rnd 0) (Some m) (st \<lparr> targetPositions := [] \<rparr>) = Inr st'
      \<and> targetPositions st' = [])"
proof -
  have e: "shapes ml rnd 0 s = []" for s
    using shapes_length [of ml rnd 0 s] by simp
  have "\<forall>s. length (shapes ml rnd 0 s) \<le> length (targetPositions (st \<lparr> targetPositions := [] \<rparr>))"
    by (simp add: e)
  from shapeSelection_total [OF this, of m]
  obtain st1 where sel: "shapeSelection (shapes ml rnd 0) m (st \<lparr> targetPositions := [] \<rparr>) = Inr st1"
    by blast
  then have "targetPositions st1 = []"
    by (auto simp add: shapeSelection_def Let_def f32_set_def e split: if_splits)
  then have h: "\<exists>st'. handleMetrics setHSL (shapes ml rnd 0) (Some m) (st \<lparr> targetPositions := [] \<rparr>)
      = Inr st' \<and> targetPositions st' = []"
    unfolding handleMetrics_Some [OF sel] by (simp add: physics_frame colorMode_frame)
  have m: "mount c0 (shapes ml rnd 0) 0 =
     Inr \<lparr> positions = [], targetPositions = [], currentShape = HEART,
           rotationSpeed = 0.001, groupScale = 1.0,
           currentColor = c0, targetColor = c0, materialColor = c0,
           rotation_y = 0, rotation_z = 0, scale = \<lparr> px = 1, py = 1, pz = 1 \<rparr> \<rparr>"
    by (simp add: mount_def e f32_set_def f32_new_def)
  have l: "particle_loop f rnd' target 0 0 0 p = (p, 0)" for f target p
    by (simp add: particle_loop_done)
  have "positions (animate 0 rnd' st) = positions st"
    by (simp add: animate_fields l)
  with h m l e show ?thesis
    by (simp only: generate_zero)
qed

section \<open>Invariant of the physics targets\<close>







section \<open>Convergence of the position update\<close>
















section \<open>Buffers of the running scene\<close>

text \<open>
  The length hypotheses of the theorems above are invariants of the program: in every
  reachable state the position buffer and the target buffer have three entries per
  particle, the target buffer is the cached buffer of the current shape, and a metrics
  update does not fail.
\<close>

lemma mount_shapes:
  "mount c0 (shapes ml rnd n) n =
     Inr \<lparr> positions = shapes ml rnd n HEART, targetPositions = shapes ml rnd n HEART,
           currentShape = HEART, rotationSpeed = 0.001, groupScale = 1.0,
           currentColor = c0, targetColor = c0, materialColor = c0,
           rotation_y = 0, rotation_z = 0, scale = \<lparr> px = 1, py = 1, pz = 1 \<rparr> \<rparr>"
  by (simp add: mount_def f32_set_def f32_new_def shapes_length)

lemma shapeSelection_shapes:
  assumes "targetPositions st = shapes ml rnd n (currentShape st)"
  shows "\<exists>st1. shapeSelection (shapes ml rnd n) m st = Inr st1 \<and>
           positions st1 = positions st \<and>
           targetPositions st1 = shapes ml rnd n (currentShape st1)"
  using assms by (simp add: shapeSelection_def Let_def f32_set_def shapes_length)

lemma handleMetrics_shapes:
  assumes "targetPositions st = shapes ml rnd n (currentShape st)"
  shows "\<exists>st'. handleMetrics setHSL (shapes ml rnd n) hm st = Inr st' \<and>
           positions st' = positions st \<and>
           targetPositions st' = shapes ml rnd n (currentShape st')"
proof (cases hm)
  case None
  with assms show ?thesis by (simp add: handleMetrics_def)
next
  case (Some m)
  from shapeSelection_shapes [OF assms, of m] obtain st1 where
    sel: "shapeSelection (shapes ml rnd n) m st = Inr st1"
    and keep: "positions st1 = positions st"
      "targetPositions st1 = shapes ml rnd n (currentShape st1)"
    by blast
  have "positions (physics m (colorMode setHSL m st1)) = positions st1"
    by (simp add: physics_def colorMode_def Let_def)
  with keep show ?thesis
    unfolding Some handleMetrics_Some [OF sel]
    by (simp add: physics_frame colorMode_frame)
qed

lemma reachable_buffers:
  assumes "reachable c0 setHSL (shapes ml rnd n) n st"
  shows "length (positions st) = n * 3 \<and>
         targetPositions st = shapes ml rnd n (currentShape st)"
  using assms
proof (induction rule: reachable.induct)
  case (mounted st)
  then show ?case by (auto simp add: mount_shapes shapes_length)
next
  case (tick st rnd')
  then show ?case by (simp add: animate_fields animate_frame particle_loop_length)
next
  case (update st hm st')
  with handleMetrics_shapes [of st ml rnd n setHSL hm] show ?case by auto
qed

lemma reachable_update_succeeds:
  assumes "reachable c0 setHSL (shapes ml rnd n) n st"
  shows "\<exists>st'. handleMetrics setHSL (shapes ml rnd n) hm st = Inr st'"
  using reachable_buffers [OF assms] handleMetrics_shapes [of st ml rnd n setHSL hm] by blast

lemma reachable_lengths:
  assumes "reachable c0 setHSL (shapes ml rnd n) n st"
  shows "length (positions st) = n * 3" and "length (targetPositions st) = n * 3"
    and "\<forall>s. length (shapes ml rnd n s) = length (targetPositions st)"
  using reachable_buffers [OF assms] by (simp_all add: shapes_length)

end
